theory Spec2Isabelle
  imports Main "HOL-Library.Word" "HOL-Library.Sublist"
begin

unbundle bit_operations_syntax

section \<open>The digest: \<^verbatim>\<open>hashlib.sha256(s.encode()).hexdigest()\<close>\<close>

text \<open>
  \<^verbatim>\<open>Heady_Chain.py\<close> hashes the canonical string of a block with SHA-256 and keeps the
  digest as 64 lower-case hexadecimal characters. The digest is computed here on 32-bit
  words. A Python string is modelled by its UTF-8 bytes (\<open>string\<close> is a list of 8-bit
  characters), so \<^verbatim>\<open>.encode()\<close> is the identity on the bytes.
\<close>

type_synonym w32 = "32 word"

definition round_constants :: "w32 list" where
  "round_constants = [
    1116352408, 1899447441, 3049323471, 3921009573, 961987163, 1508970993,
    2453635748, 2870763221, 3624381080, 310598401, 607225278, 1426881987,
    1925078388, 2162078206, 2614888103, 3248222580, 3835390401, 4022224774,
    264347078, 604807628, 770255983, 1249150122, 1555081692, 1996064986,
    2554220882, 2821834349, 2952996808, 3210313671, 3336571891, 3584528711,
    113926993, 338241895, 666307205, 773529912, 1294757372, 1396182291,
    1695183700, 1986661051, 2177026350, 2456956037, 2730485921, 2820302411,
    3259730800, 3345764771, 3516065817, 3600352804, 4094571909, 275423344,
    430227734, 506948616, 659060556, 883997877, 958139571, 1322822218,
    1537002063, 1747873779, 1955562222, 2024104815, 2227730452, 2361852424,
    2428436474, 2756734187, 3204031479, 3329325298]"

definition initial_state :: "w32 list" where
  "initial_state =
     [1779033703, 3144134277, 1013904242, 2773480762, 1359893119, 2600822924, 528734635, 1541459225]"

definition rotr :: "nat \<Rightarrow> w32 \<Rightarrow> w32" where
  "rotr n w = word_rotr n w"

definition shr :: "nat \<Rightarrow> w32 \<Rightarrow> w32" where
  "shr n w = drop_bit n w"

definition small_sigma0 :: "w32 \<Rightarrow> w32" where
  "small_sigma0 x = rotr 7 x XOR rotr 18 x XOR shr 3 x"

definition small_sigma1 :: "w32 \<Rightarrow> w32" where
  "small_sigma1 x = rotr 17 x XOR rotr 19 x XOR shr 10 x"

definition big_sigma0 :: "w32 \<Rightarrow> w32" where
  "big_sigma0 x = rotr 2 x XOR rotr 13 x XOR rotr 22 x"

definition big_sigma1 :: "w32 \<Rightarrow> w32" where
  "big_sigma1 x = rotr 6 x XOR rotr 11 x XOR rotr 25 x"

definition sha_choose :: "w32 \<Rightarrow> w32 \<Rightarrow> w32 \<Rightarrow> w32" where
  "sha_choose x y z = (x AND y) XOR (NOT x AND z)"

definition sha_majority :: "w32 \<Rightarrow> w32 \<Rightarrow> w32 \<Rightarrow> w32" where
  "sha_majority x y z = (x AND y) XOR (x AND z) XOR (y AND z)"

text \<open>
  The message schedule, latest word first: \<open>schedule 48\<close> extends the sixteen words of
  a chunk (given reversed) to the sixty-four words of the rounds.
\<close>

fun schedule :: "nat \<Rightarrow> w32 list \<Rightarrow> w32 list" where
  "schedule 0 ws = ws"
| "schedule (Suc n) ws =
     schedule n ((small_sigma1 (ws ! 1) + ws ! 6 + small_sigma0 (ws ! 14) + ws ! 15) # ws)"

fun rounds :: "w32 list \<Rightarrow> w32 list \<Rightarrow> w32 list \<Rightarrow> w32 list" where
  "rounds [a, b, c, d, e, f, g, h] (k # ks) (w # ws) =
     (let t1 = h + big_sigma1 e + sha_choose e f g + k + w;
          t2 = big_sigma0 a + sha_majority a b c
      in rounds [t1 + t2, a, b, c, d + t1, e, f, g] ks ws)"
| "rounds s _ _ = s"

definition compress :: "w32 list \<Rightarrow> w32 list \<Rightarrow> w32 list" where
  "compress hs chunk = map2 (+) hs (rounds hs round_constants (rev (schedule 48 (rev chunk))))"

fun big_endian_words :: "8 word list \<Rightarrow> w32 list" where
  "big_endian_words (a # b # c # d # r) =
     (push_bit 24 (ucast a) OR push_bit 16 (ucast b) OR push_bit 8 (ucast c) OR ucast d)
       # big_endian_words r"
| "big_endian_words _ = []"

definition pad :: "8 word list \<Rightarrow> 8 word list" where
  "pad m =
     (let l = length m;
          z = (55 - int l) mod 64;
          bits = (word_of_nat (8 * l) :: 64 word)
      in m @ [128] @ replicate (nat z) 0 @ map (\<lambda>i. ucast (drop_bit (8 * i) bits)) [7, 6, 5, 4, 3, 2, 1, 0])"

fun chunks :: "w32 list \<Rightarrow> w32 list \<Rightarrow> w32 list" where
  "chunks hs ws = (if length ws < 16 then hs else chunks (compress hs (take 16 ws)) (drop 16 ws))"

definition hex_digit :: "nat \<Rightarrow> char" where
  "hex_digit n = ''0123456789abcdef'' ! n"

definition hex_word :: "w32 \<Rightarrow> string" where
  "hex_word w = map (\<lambda>i. hex_digit (unat (drop_bit (4 * i) w AND 15))) [7, 6, 5, 4, 3, 2, 1, 0]"

definition sha256_hexdigest :: "string \<Rightarrow> string" where
  "sha256_hexdigest s =
     concat (map hex_word
       (chunks initial_state (big_endian_words (pad (map (\<lambda>c. word_of_nat (of_char c)) s)))))"


section \<open>Block\<close>

text \<open>
  \<^verbatim>\<open>Heady_Chain.py\<close> holds the classes \<^verbatim>\<open>Block\<close> and \<^verbatim>\<open>HeadyChain\<close> eleven times
  over. A later \<^verbatim>\<open>class\<close> statement replaces an earlier one, so the last copy (lines
  777 to 860) is the ledger that the file defines, and this section and the next model it.
  The earlier copies, which the earlier \<^verbatim>\<open>__main__\<close> blocks run, and the
  \<^verbatim>\<open>__main__\<close> blocks themselves, which are not replaced by later ones, follow in
  sections of their own.

  \<^verbatim>\<open>class Block\<close>: the attributes have the types that the constructor's callers give
  them and that \<^verbatim>\<open>save\<close> writes: integers for \<^verbatim>\<open>index\<close> and \<^verbatim>\<open>nonce\<close>, strings for
  the rest.
\<close>

record block =
  index :: int
  timestamp :: string
  data :: string
  prev_hash :: string
  nonce :: int
  hash :: string

text \<open>Python's \<^verbatim>\<open>str\<close> of an integer, as an f-string prints it.\<close>

fun decimal :: "nat \<Rightarrow> string" where
  "decimal n =
     (if n < 10 then [char_of (48 + n)] else decimal (n div 10) @ [char_of (48 + n mod 10)])"

declare decimal.simps [simp del]

definition str_int :: "int \<Rightarrow> string" where
  "str_int i = (if i < 0 then CHR ''-'' # decimal (nat (- i)) else decimal (nat i))"

text \<open>
  \<^verbatim>\<open>compute_hash\<close>: the f-string
  \<^verbatim>\<open>f"{self.index}{self.timestamp}{self.data}{self.prev_hash}{self.nonce}"\<close>, then its digest.
\<close>

definition block_str :: "block \<Rightarrow> string" where
  "block_str b = str_int (index b) @ timestamp b @ data b @ prev_hash b @ str_int (nonce b)"

definition compute_hash :: "block \<Rightarrow> string" where
  "compute_hash b = sha256_hexdigest (block_str b)"

text \<open>
  \<^verbatim>\<open>Block.__init__\<close>: the nonce starts at 0 and the hash is computed at once, from the
  five attributes assigned before it (the empty \<open>hash\<close> of \<open>self\<close> below stands for the
  attribute not assigned yet; \<open>compute_hash\<close> does not read it).
\<close>

definition Block_init :: "int \<Rightarrow> string \<Rightarrow> string \<Rightarrow> string \<Rightarrow> block" where
  "Block_init idx ts d ph =
     (let self = \<lparr>index = idx, timestamp = ts, data = d, prev_hash = ph, nonce = 0, hash = []\<rparr>
      in self\<lparr>hash := compute_hash self\<rparr>)"

text \<open>
  \<^verbatim>\<open>mine(self, difficulty=2)\<close>: \<^verbatim>\<open>target = "0" * difficulty\<close> (empty for a difficulty
  below 1), and the loop runs while the hash does not start with the target;
  \<open>mine_step\<close> is the body of the loop. Nothing bounds the loop, so the model is a
  partial function: \<open>None\<close> is a run that never ends.
\<close>

definition mine_step :: "block \<Rightarrow> block" where
  "mine_step self =
     (let self = self\<lparr>nonce := nonce self + 1\<rparr>
      in self\<lparr>hash := compute_hash self\<rparr>)"

partial_function (option) mine :: "int \<Rightarrow> block \<Rightarrow> block option" where
  "mine difficulty self =
     (if prefix (replicate (nat difficulty) CHR ''0'') (hash self) then Some self
      else mine difficulty (mine_step self))"


section \<open>The ledger file\<close>

text \<open>
  The file \<^verbatim>\<open>chain_head.json\<close> under \<^verbatim>\<open>LEDGER_DIR\<close> is modelled by what \<^verbatim>\<open>json.load\<close>
  makes of it: \<open>Garbage\<close> is a text that \<^verbatim>\<open>json.load\<close> rejects with \<^verbatim>\<open>JSONDecodeError\<close>,
  \<open>Json v\<close> a text that it parses to the value \<open>v\<close>. \<^verbatim>\<open>json.dump\<close> writes a text that
  parses back to the value dumped. An object is the dictionary that \<^verbatim>\<open>json.load\<close> builds,
  as an association list in insertion order. Numbers are integers: the ledger holds no
  floating-point value.
\<close>

datatype json =
    JNull
  | JBool bool
  | JInt int
  | JStr string
  | JList "json list"
  | JObj "(string \<times> json) list"

datatype file_content = Garbage | Json json

text \<open>
  The storage location: \<open>Absent\<close> when \<^verbatim>\<open>LEDGER_DIR\<close> does not exist, else the
  directory with the ledger file, if there is one.
\<close>

datatype storage = Absent | Dir "file_content option"

datatype error =
    IndexError
  | KeyError string
  | TypeError
  | FileNotFoundError
  | JSONDecodeError
  | Untyped_value string

text \<open>
  \<open>Untyped_value\<close> is not an exception of the source. Python keeps a value of any type
  that the file gives to an attribute, and fails later where the value is used. The blocks
  of this embedding are typed, so the embedding covers the files whose records hold
  integers under \<^verbatim>\<open>index\<close> and \<^verbatim>\<open>nonce\<close> and strings under the other keys, and marks
  every other record with \<open>Untyped_value\<close>.
\<close>

text \<open>
  What one run of the program can see and change: the \<^verbatim>\<open>chain\<close> attribute of the
  \<^verbatim>\<open>HeadyChain\<close> object, the storage location, and the lines printed.
\<close>

record state =
  chain :: "block list"
  disk :: storage
  stdout :: "string list"

text \<open>\<^verbatim>\<open>vars(b)\<close>: the six attributes, in the order the constructor assigns them.\<close>

definition vars_block :: "block \<Rightarrow> json" where
  "vars_block b = JObj
     [(''index'', JInt (index b)),
      (''timestamp'', JStr (timestamp b)),
      (''data'', JStr (data b)),
      (''prev_hash'', JStr (prev_hash b)),
      (''nonce'', JInt (nonce b)),
      (''hash'', JStr (hash b))]"

text \<open>
  \<^verbatim>\<open>save\<close>: the whole chain is written over the file. \<^verbatim>\<open>open(..., 'w')\<close> raises
  \<^verbatim>\<open>FileNotFoundError\<close> when the directory does not exist.
\<close>

definition save :: "state \<Rightarrow> error + state" where
  "save self =
     (case disk self of
        Absent \<Rightarrow> Inl FileNotFoundError
      | Dir _ \<Rightarrow> Inr (self\<lparr>disk := Dir (Some (Json (JList (map vars_block (chain self)))))\<rparr>))"

text \<open>
  \<^verbatim>\<open>gen\<close>: appends the genesis block to \<^verbatim>\<open>self.chain\<close> and saves. The argument \<open>now\<close>
  is \<^verbatim>\<open>str(datetime.datetime.now())\<close>, the reading of the clock.
\<close>

definition gen :: "string \<Rightarrow> state \<Rightarrow> error + state" where
  "gen now self = save (self\<lparr>chain := chain self @ [Block_init 0 now ''Genesis'' ''0'']\<rparr>)"

text \<open>Sequencing: an exception of the first step ends the computation.\<close>

definition raising :: "'e + 'a \<Rightarrow> ('a \<Rightarrow> 'e + 'b) \<Rightarrow> 'e + 'b" where
  "raising m f = (case m of Inl e \<Rightarrow> Inl e | Inr x \<Rightarrow> f x)"

text \<open>\<^verbatim>\<open>b['key']\<close>: a missing key of a dictionary is a \<^verbatim>\<open>KeyError\<close>; a string key on any
  other value is a \<^verbatim>\<open>TypeError\<close>.\<close>

fun getitem :: "json \<Rightarrow> string \<Rightarrow> error + json" where
  "getitem (JObj kvs) k = (case map_of kvs k of None \<Rightarrow> Inl (KeyError k) | Some v \<Rightarrow> Inr v)"
| "getitem _ k = Inl TypeError"

text \<open>\<^verbatim>\<open>b.get('key', default)\<close> on a dictionary.\<close>

fun get_default :: "json \<Rightarrow> string \<Rightarrow> json \<Rightarrow> json" where
  "get_default (JObj kvs) k dflt = (case map_of kvs k of None \<Rightarrow> dflt | Some v \<Rightarrow> v)"
| "get_default _ k dflt = dflt"

text \<open>\<^verbatim>\<open>for b in data\<close>: a list gives its elements, a dictionary its keys, a string its
  characters; nothing else can be iterated.\<close>

fun iterate :: "json \<Rightarrow> error + json list" where
  "iterate (JList xs) = Inr xs"
| "iterate (JObj kvs) = Inr (map (\<lambda>kv. JStr (fst kv)) kvs)"
| "iterate (JStr s) = Inr (map (\<lambda>c. JStr [c]) s)"
| "iterate _ = Inl TypeError"

text \<open>
  The body of the loop of \<^verbatim>\<open>load\<close>: the four subscripts are evaluated in order and the
  block is constructed (\<open>construct\<close>, which computes a hash). Then \<^verbatim>\<open>nonce\<close> is assigned
  the stored value, or 0 when the record has none, and after it \<^verbatim>\<open>hash\<close> is assigned the
  stored value, or, when the record has none, the digest of the block as it stands then,
  with the nonce just assigned.
\<close>

fun construct :: "json \<Rightarrow> json \<Rightarrow> json \<Rightarrow> json \<Rightarrow> error + block" where
  "construct (JInt i) (JStr t) (JStr d) (JStr p) = Inr (Block_init i t d p)"
| "construct _ _ _ _ = Inl (Untyped_value ''index, timestamp, data or prev_hash'')"

fun assign_nonce :: "block \<Rightarrow> json \<Rightarrow> error + block" where
  "assign_nonce block (JInt n) = Inr (block\<lparr>nonce := n\<rparr>)"
| "assign_nonce block _ = Inl (Untyped_value ''nonce'')"

fun assign_hash :: "block \<Rightarrow> json \<Rightarrow> error + block" where
  "assign_hash block (JStr h) = Inr (block\<lparr>hash := h\<rparr>)"
| "assign_hash block _ = Inl (Untyped_value ''hash'')"

definition load_block :: "json \<Rightarrow> error + block" where
  "load_block b =
     raising (getitem b ''index'') (\<lambda>i.
     raising (getitem b ''timestamp'') (\<lambda>t.
     raising (getitem b ''data'') (\<lambda>d.
     raising (getitem b ''prev_hash'') (\<lambda>p.
     raising (construct i t d p) (\<lambda>block.
     raising (assign_nonce block (get_default b ''nonce'' (JInt 0))) (\<lambda>block.
       assign_hash block (get_default b ''hash'' (JStr (compute_hash block)))))))))"

fun load_blocks :: "json list \<Rightarrow> error + block list" where
  "load_blocks [] = Inr []"
| "load_blocks (b # bs) =
     raising (load_block b) (\<lambda>block.
     raising (load_blocks bs) (\<lambda>blocks. Inr (block # blocks)))"

text \<open>
  \<^verbatim>\<open>load\<close>: \<^verbatim>\<open>FileNotFoundError\<close> (no file) and \<^verbatim>\<open>JSONDecodeError\<close> are caught and
  answered by \<^verbatim>\<open>gen\<close>; every other exception leaves the method.
\<close>

definition load :: "string \<Rightarrow> state \<Rightarrow> error + state" where
  "load now self =
     (case disk self of
        Absent \<Rightarrow> gen now self
      | Dir None \<Rightarrow> gen now self
      | Dir (Some Garbage) \<Rightarrow> gen now self
      | Dir (Some (Json v)) \<Rightarrow>
          raising (iterate v) (\<lambda>records.
          raising (load_blocks records) (\<lambda>blocks. Inr (self\<lparr>chain := blocks\<rparr>))))"

text \<open>
  \<^verbatim>\<open>HeadyChain.__init__\<close>, run against the storage \<open>d\<close> with nothing printed yet:
  \<^verbatim>\<open>os.makedirs\<close> and \<^verbatim>\<open>gen\<close> when the directory does not exist, \<^verbatim>\<open>load\<close> when it does.
\<close>

definition init :: "string \<Rightarrow> storage \<Rightarrow> error + state" where
  "init now d =
     (let self = \<lparr>chain = [], disk = d, stdout = []\<rparr>
      in case d of
           Absent \<Rightarrow> gen now (self\<lparr>disk := Dir None\<rparr>)
         | Dir _ \<Rightarrow> load now self)"

text \<open>
  \<^verbatim>\<open>add\<close>: \<^verbatim>\<open>self.chain[-1]\<close> raises \<^verbatim>\<open>IndexError\<close> on an empty chain; the new block is
  mined at the default difficulty, appended, saved, and its hash printed.
\<close>

definition add :: "string \<Rightarrow> string \<Rightarrow> string \<Rightarrow> state \<Rightarrow> (error + state) option" where
  "add r u now self =
     (if chain self = [] then Some (Inl IndexError)
      else
        let p = last (chain self);
            b = Block_init (index p + 1) now (r @ '':'' @ u) (hash p)
        in case mine 2 b of
             None \<Rightarrow> None
           | Some b' \<Rightarrow>
               (case save (self\<lparr>chain := chain self @ [b']\<rparr>) of
                  Inl e \<Rightarrow> Some (Inl e)
                | Inr self' \<Rightarrow>
                    Some (Inr (self'\<lparr>stdout := stdout self' @ [''Mined: '' @ hash b']\<rparr>))))"

text \<open>\<^verbatim>\<open>verify\<close>: the blocks from the last to the first; \<^verbatim>\<open>x in y\<close> on strings is
  \<^const>\<open>sublist\<close>.\<close>

fun verify_loop :: "string \<Rightarrow> block list \<Rightarrow> bool" where
  "verify_loop needle [] = False"
| "verify_loop needle (b # bs) = (if sublist needle (data b) then True else verify_loop needle bs)"

definition verify :: "string \<Rightarrow> string \<Rightarrow> state \<Rightarrow> bool" where
  "verify r u self = verify_loop (r @ '':'' @ u) (rev (chain self))"


section \<open>The earlier copies of the class\<close>

text \<open>
  The file holds eleven copies of the two classes. A \<^verbatim>\<open>__main__\<close> block runs the copy that
  precedes it, so the earlier copies are modelled where they differ from the last one.

  In the first copy (lines 3 to 27) \<^verbatim>\<open>load\<close> has no \<^verbatim>\<open>try\<close>: a missing file and a text
  that is not JSON end the constructor. In the first nine copies \<^verbatim>\<open>load\<close> builds each
  block from the four keys alone, so the nonce returns to 0 and the hash is computed again.
  In the eighth and the ninth copy (lines 531 to 692) \<^verbatim>\<open>mine\<close> has the default difficulty
  4. \<^verbatim>\<open>gen\<close>, \<^verbatim>\<open>save\<close>, \<^verbatim>\<open>verify\<close> and the body of \<^verbatim>\<open>add\<close> are the same in every copy
  (\<^verbatim>\<open>self.hash[:2] != "00"\<close> of the first seven copies is \<^verbatim>\<open>mine\<close> at difficulty 2).
\<close>

definition load_block_earlier :: "json \<Rightarrow> error + block" where
  "load_block_earlier b =
     raising (getitem b ''index'') (\<lambda>i.
     raising (getitem b ''timestamp'') (\<lambda>t.
     raising (getitem b ''data'') (\<lambda>d.
     raising (getitem b ''prev_hash'') (\<lambda>p. construct i t d p))))"

fun load_blocks_earlier :: "json list \<Rightarrow> error + block list" where
  "load_blocks_earlier [] = Inr []"
| "load_blocks_earlier (b # bs) =
     raising (load_block_earlier b) (\<lambda>block.
     raising (load_blocks_earlier bs) (\<lambda>blocks. Inr (block # blocks)))"

definition load_first :: "state \<Rightarrow> error + state" where
  "load_first self =
     (case disk self of
        Absent \<Rightarrow> Inl FileNotFoundError
      | Dir None \<Rightarrow> Inl FileNotFoundError
      | Dir (Some Garbage) \<Rightarrow> Inl JSONDecodeError
      | Dir (Some (Json v)) \<Rightarrow>
          raising (iterate v) (\<lambda>records.
          raising (load_blocks_earlier records) (\<lambda>blocks. Inr (self\<lparr>chain := blocks\<rparr>))))"

definition load_earlier :: "string \<Rightarrow> state \<Rightarrow> error + state" where
  "load_earlier now self =
     (case disk self of
        Absent \<Rightarrow> gen now self
      | Dir None \<Rightarrow> gen now self
      | Dir (Some Garbage) \<Rightarrow> gen now self
      | Dir (Some (Json v)) \<Rightarrow>
          raising (iterate v) (\<lambda>records.
          raising (load_blocks_earlier records) (\<lambda>blocks. Inr (self\<lparr>chain := blocks\<rparr>))))"

definition init_first :: "string \<Rightarrow> storage \<Rightarrow> error + state" where
  "init_first now d =
     (let self = \<lparr>chain = [], disk = d, stdout = []\<rparr>
      in case d of
           Absent \<Rightarrow> gen now (self\<lparr>disk := Dir None\<rparr>)
         | Dir _ \<Rightarrow> load_first self)"

definition init_earlier :: "string \<Rightarrow> storage \<Rightarrow> error + state" where
  "init_earlier now d =
     (let self = \<lparr>chain = [], disk = d, stdout = []\<rparr>
      in case d of
           Absent \<Rightarrow> gen now (self\<lparr>disk := Dir None\<rparr>)
         | Dir _ \<Rightarrow> load_earlier now self)"

text \<open>\<^verbatim>\<open>add\<close> of a copy whose \<^verbatim>\<open>mine\<close> has the default \<open>difficulty\<close>.\<close>

definition add_difficulty ::
  "int \<Rightarrow> string \<Rightarrow> string \<Rightarrow> string \<Rightarrow> state \<Rightarrow> (error + state) option" where
  "add_difficulty difficulty r u now self =
     (if chain self = [] then Some (Inl IndexError)
      else
        let p = last (chain self);
            b = Block_init (index p + 1) now (r @ '':'' @ u) (hash p)
        in case mine difficulty b of
             None \<Rightarrow> None
           | Some b' \<Rightarrow>
               (case save (self\<lparr>chain := chain self @ [b']\<rparr>) of
                  Inl e \<Rightarrow> Some (Inl e)
                | Inr self' \<Rightarrow>
                    Some (Inr (self'\<lparr>stdout := stdout self' @ [''Mined: '' @ hash b']\<rparr>))))"

text \<open>
  A copy of the class, as a \<^verbatim>\<open>__main__\<close> block uses it: the constructor and the two
  methods that the block calls.
\<close>

record HeadyChain_class =
  init_method :: "string \<Rightarrow> storage \<Rightarrow> error + state"
  add_method :: "string \<Rightarrow> string \<Rightarrow> string \<Rightarrow> state \<Rightarrow> (error + state) option"
  verify_method :: "string \<Rightarrow> string \<Rightarrow> state \<Rightarrow> bool"

definition class_first :: HeadyChain_class where
  "class_first = \<lparr>init_method = init_first, add_method = add_difficulty 2, verify_method = verify\<rparr>"

definition class_earlier :: "int \<Rightarrow> HeadyChain_class" where
  "class_earlier difficulty =
     \<lparr>init_method = init_earlier, add_method = add_difficulty difficulty, verify_method = verify\<rparr>"

definition class_last :: HeadyChain_class where
  "class_last = \<lparr>init_method = init, add_method = add, verify_method = verify\<rparr>"


section \<open>Build and repair\<close>

text \<open>
  The second script pasted into the file (lines 861 to 1096). It reads and writes five
  files of the project, none of them under \<^verbatim>\<open>LEDGER_DIR\<close>; the project is modelled by
  the names of the files that exist, the contents written are left out. Each element of
  the output is the argument of one \<^verbatim>\<open>print\<close>.
\<close>

definition required_files :: "string list" where
  "required_files =
     [''render.yaml'', ''requirements.txt'', ''package.json'', ''heady-manager.js'',
      ''src/process_data.py'']"

text \<open>\<^verbatim>\<open>audit_infrastructure\<close>: the missing names and the lines printed.\<close>

definition audit_infrastructure :: "string list \<Rightarrow> string list \<times> string list" where
  "audit_infrastructure project =
     (filter (\<lambda>name. name \<notin> set project) required_files,
      map (\<lambda>name. if name \<notin> set project then ''[MISSING] '' @ name else ''[OK] '' @ name)
        required_files)"

text \<open>One of the five \<^verbatim>\<open>generate_...\<close> functions: the file is written and reported.\<close>

definition generate :: "string \<Rightarrow> string list \<times> string list \<Rightarrow> string list \<times> string list" where
  "generate name w = (fst w @ [name], snd w @ [''[GENERATED] '' @ name])"

definition generate_if_missing ::
  "string \<Rightarrow> string list \<Rightarrow> string list \<times> string list \<Rightarrow> string list \<times> string list" where
  "generate_if_missing name missing w = (if name \<in> set missing then generate name w else w)"

text \<open>\<^verbatim>\<open>run_build_repair\<close>: the project after the run and the lines printed.\<close>

definition run_build_repair :: "string list \<Rightarrow> string list \<times> string list" where
  "run_build_repair project =
     (let audit = audit_infrastructure project;
          missing = fst audit;
          w = (project,
               [replicate 50 CHR ''='', ''HeadySystems Build & Repair Cycle'', replicate 50 CHR ''='',
                CHR 0x0A # ''[STEP 1] Infrastructure Audit''] @ snd audit @
               [CHR 0x0A # ''[STEP 2] Dependency Resolution'']);
          w = generate_if_missing ''requirements.txt'' missing w;
          w = generate_if_missing ''package.json'' missing w;
          w = (fst w, snd w @ [CHR 0x0A # ''[STEP 3] Code Repair'']);
          w = generate_if_missing ''heady-manager.js'' missing w;
          w = generate_if_missing ''src/process_data.py'' missing w;
          w = generate_if_missing ''render.yaml'' missing w
      in (fst w,
          snd w @
          [CHR 0x0A # ''[STEP 4] Build Simulation'',
           ''Ready for: git add . && git commit -m 'Build repair' && git push'',
           CHR 0x0A # ''[COMPLETE] Project ready for Render deployment'']))"


section \<open>The command line\<close>

text \<open>
  The file has sixteen top-level \<^verbatim>\<open>__main__\<close> blocks, of six forms. What a run of one
  block leaves: the ledger storage, the project files, the lines printed, and the
  exception that ended the run, if one did. Where a method of the class raises, the
  storage is the storage before the call: the methods write in \<^verbatim>\<open>save\<close> only, as their
  last step.
\<close>

record run =
  ledger_storage :: storage
  project_files :: "string list"
  printed :: "string list"
  uncaught :: "error option"

definition finished :: "storage \<Rightarrow> string list \<Rightarrow> string list \<Rightarrow> run" where
  "finished d project out =
     \<lparr>ledger_storage = d, project_files = project, printed = out, uncaught = None\<rparr>"

definition aborted :: "error \<Rightarrow> storage \<Rightarrow> string list \<Rightarrow> string list \<Rightarrow> run" where
  "aborted e d project out =
     \<lparr>ledger_storage = d, project_files = project, printed = out, uncaught = Some e\<rparr>"

definition usage_line :: string where
  "usage_line = ''Usage: python Heady_Chain.py <grant|verify> <role> <user>''"

definition invalid_line :: string where
  "invalid_line = ''Invalid command or missing arguments''"

definition usage_all_line :: string where
  "usage_all_line = ''Usage: python Heady_Chain.py <build|grant|verify> [args]''"

definition usage_grant_line :: string where
  "usage_grant_line = ''Usage: python Heady_Chain.py grant <role> <user>''"

definition usage_verify_line :: string where
  "usage_verify_line = ''Usage: python Heady_Chain.py verify <role> <user>''"

text \<open>\<^verbatim>\<open>"ACCESS GRANTED" if hc.verify(...) else "DENIED"\<close>.\<close>

definition access_line :: "HeadyChain_class \<Rightarrow> string \<Rightarrow> string \<Rightarrow> state \<Rightarrow> string" where
  "access_line K r u hc = (if verify_method K r u hc then ''ACCESS GRANTED'' else ''DENIED'')"

text \<open>\<^verbatim>\<open>hc.add(sys.argv[2], sys.argv[3])\<close> as the last statement of a run.\<close>

definition grant_command ::
  "HeadyChain_class \<Rightarrow> string \<Rightarrow> string \<Rightarrow> string \<Rightarrow> state \<Rightarrow> string list \<Rightarrow> run option" where
  "grant_command K r u now hc project =
     (case add_method K r u now hc of
        None \<Rightarrow> None
      | Some (Inl e) \<Rightarrow> Some (aborted e (disk hc) project (stdout hc))
      | Some (Inr hc') \<Rightarrow> Some (finished (disk hc') project (stdout hc')))"

text \<open>
  The first block (lines 28 to 39). It reads \<^verbatim>\<open>sys.argv[1]\<close> in two \<^verbatim>\<open>if\<close> statements
  before it tests the length, and then goes through the tests of the common form, so a
  complete \<^verbatim>\<open>grant\<close> calls \<^verbatim>\<open>add\<close> twice (\<open>now1\<close> and \<open>now2\<close> are the two readings of
  the clock). A subscript beyond the end of \<^verbatim>\<open>sys.argv\<close> raises \<^verbatim>\<open>IndexError\<close>.
\<close>

definition main_first ::
  "HeadyChain_class \<Rightarrow> string list \<Rightarrow> string \<Rightarrow> string \<Rightarrow> string \<Rightarrow> storage \<Rightarrow> string list
     \<Rightarrow> run option" where
  "main_first K argv now0 now1 now2 d project =
     (case init_method K now0 d of
        Inl e \<Rightarrow> Some (aborted e d project [])
      | Inr hc \<Rightarrow>
          if length argv < 2 then Some (aborted IndexError (disk hc) project (stdout hc))
          else
            (case (if argv ! 1 = ''grant''
                   then (if length argv < 4 then Some (Inl IndexError)
                         else add_method K (argv ! 2) (argv ! 3) now1 hc)
                   else Some (Inr hc)) of
               None \<Rightarrow> None
             | Some (Inl e) \<Rightarrow> Some (aborted e (disk hc) project (stdout hc))
             | Some (Inr hc) \<Rightarrow>
                 if argv ! 1 = ''verify'' \<and> length argv < 4
                 then Some (aborted IndexError (disk hc) project (stdout hc))
                 else
                   let hc = (if argv ! 1 = ''verify''
                             then hc\<lparr>stdout := stdout hc @ [access_line K (argv ! 2) (argv ! 3) hc]\<rparr>
                             else hc)
                   in if argv ! 1 = ''grant'' \<and> length argv \<ge> 4
                      then grant_command K (argv ! 2) (argv ! 3) now2 hc project
                      else if argv ! 1 = ''verify'' \<and> length argv \<ge> 4
                      then Some (finished (disk hc) project
                                  (stdout hc @ [access_line K (argv ! 2) (argv ! 3) hc]))
                      else Some (finished (disk hc) project (stdout hc @ [invalid_line]))))"

text \<open>
  The common form: the eleven blocks from line 40 to line 860, each after a copy of the
  class. The ledger is constructed before \<^verbatim>\<open>sys.argv\<close> is looked at.
\<close>

definition main_standard ::
  "HeadyChain_class \<Rightarrow> string list \<Rightarrow> string \<Rightarrow> string \<Rightarrow> storage \<Rightarrow> string list \<Rightarrow> run option" where
  "main_standard K argv now0 now1 d project =
     (case init_method K now0 d of
        Inl e \<Rightarrow> Some (aborted e d project [])
      | Inr hc \<Rightarrow>
          if length argv < 2 then Some (finished (disk hc) project (stdout hc @ [usage_line]))
          else if argv ! 1 = ''grant'' \<and> length argv \<ge> 4
          then grant_command K (argv ! 2) (argv ! 3) now1 hc project
          else if argv ! 1 = ''verify'' \<and> length argv \<ge> 4
          then Some (finished (disk hc) project
                      (stdout hc @ [access_line K (argv ! 2) (argv ! 3) hc]))
          else Some (finished (disk hc) project (stdout hc @ [invalid_line])))"

text \<open>The block of the second script (line 1097): \<^verbatim>\<open>run_build_repair()\<close>, whatever the
  arguments.\<close>

definition main_build :: "storage \<Rightarrow> string list \<Rightarrow> run" where
  "main_build d project =
     (let w = run_build_repair project in finished d (fst w) (snd w))"

text \<open>
  The consolidated form (the block at line 1142, and each half of the block at line 1107):
  the ledger is constructed for the verbs \<^verbatim>\<open>grant\<close> and \<^verbatim>\<open>verify\<close> only, before the
  number of arguments is tested; with no verb, build and repair runs.
\<close>

definition main_consolidated ::
  "HeadyChain_class \<Rightarrow> string list \<Rightarrow> string \<Rightarrow> string \<Rightarrow> storage \<Rightarrow> string list \<Rightarrow> run option" where
  "main_consolidated K argv now0 now1 d project =
     (if length argv \<ge> 2 then
        if argv ! 1 = ''build'' then Some (main_build d project)
        else if argv ! 1 \<in> {''grant'', ''verify''} then
          (case init_method K now0 d of
             Inl e \<Rightarrow> Some (aborted e d project [])
           | Inr hc \<Rightarrow>
               if argv ! 1 = ''grant'' \<and> length argv \<ge> 4
               then grant_command K (argv ! 2) (argv ! 3) now1 hc project
               else if argv ! 1 = ''verify'' \<and> length argv \<ge> 4
               then Some (finished (disk hc) project
                           (stdout hc @ [access_line K (argv ! 2) (argv ! 3) hc]))
               else Some (finished (disk hc) project (stdout hc @ [usage_line])))
        else Some (finished d project [usage_all_line])
      else Some (main_build d project))"

text \<open>
  One statement after another inside a block: the second runs on what the first left,
  unless the first did not return or raised.
\<close>

definition and_then :: "run option \<Rightarrow> (storage \<Rightarrow> string list \<Rightarrow> run option) \<Rightarrow> run option" where
  "and_then first second =
     (case first of
        None \<Rightarrow> None
      | Some r \<Rightarrow>
          if uncaught r \<noteq> None then Some r
          else (case second (ledger_storage r) (project_files r) of
                  None \<Rightarrow> None
                | Some r' \<Rightarrow> Some (r'\<lparr>printed := printed r @ printed r'\<rparr>)))"

text \<open>The block at line 1107 holds the consolidated tests twice, one after the other.\<close>

definition main_consolidated_twice ::
  "HeadyChain_class \<Rightarrow> string list \<Rightarrow> string \<Rightarrow> string \<Rightarrow> string \<Rightarrow> string \<Rightarrow> storage \<Rightarrow> string list
     \<Rightarrow> run option" where
  "main_consolidated_twice K argv now0 now1 now2 now3 d project =
     and_then (main_consolidated K argv now0 now1 d project) (main_consolidated K argv now2 now3)"

text \<open>The last block (line 1160): \<^verbatim>\<open>cmd\<close> is the verb, or \<^verbatim>\<open>None\<close> when there is none.\<close>

definition main_last ::
  "HeadyChain_class \<Rightarrow> string list \<Rightarrow> string \<Rightarrow> string \<Rightarrow> storage \<Rightarrow> string list \<Rightarrow> run option" where
  "main_last K argv now0 now1 d project =
     (let cmd = (if length argv \<ge> 2 then Some (argv ! 1) else None) in
      if cmd \<in> {Some ''grant'', Some ''verify''} then
        (case init_method K now0 d of
           Inl e \<Rightarrow> Some (aborted e d project [])
         | Inr hc \<Rightarrow>
             if cmd = Some ''grant'' then
               (if length argv \<ge> 4 then grant_command K (argv ! 2) (argv ! 3) now1 hc project
                else Some (finished (disk hc) project (stdout hc @ [usage_grant_line])))
             else
               (if length argv \<ge> 4
                then Some (finished (disk hc) project
                            (stdout hc @ [access_line K (argv ! 2) (argv ! 3) hc]))
                else Some (finished (disk hc) project (stdout hc @ [usage_verify_line]))))
      else if cmd = Some ''build'' then Some (main_build d project)
      else if cmd = None then Some (main_build d project)
      else Some (finished d project [usage_all_line]))"

text \<open>
  The invocations of the claim on missing arguments: no verb, or the verb \<^verbatim>\<open>grant\<close> or
  \<^verbatim>\<open>verify\<close> with fewer than two arguments after it.
\<close>

definition verb_missing :: "string list \<Rightarrow> bool" where
  "verb_missing argv = (length argv < 2)"

definition role_or_user_missing :: "string list \<Rightarrow> bool" where
  "role_or_user_missing argv =
     (2 \<le> length argv \<and> length argv < 4 \<and> argv ! 1 \<in> {''grant'', ''verify''})"

text \<open>
  The run that constructs the ledger, calls no other method, and prints \<open>out\<close> after
  what the constructor printed.
\<close>

definition constructed_only ::
  "HeadyChain_class \<Rightarrow> string \<Rightarrow> storage \<Rightarrow> string list \<Rightarrow> string list \<Rightarrow> run" where
  "constructed_only K now d project out =
     (case init_method K now d of
        Inl e \<Rightarrow> aborted e d project []
      | Inr hc \<Rightarrow> finished (disk hc) project (stdout hc @ out))"

text \<open>The same, ended by an \<^verbatim>\<open>IndexError\<close> after the construction.\<close>

definition constructed_then_IndexError ::
  "HeadyChain_class \<Rightarrow> string \<Rightarrow> storage \<Rightarrow> string list \<Rightarrow> run" where
  "constructed_then_IndexError K now d project =
     (case init_method K now d of
        Inl e \<Rightarrow> aborted e d project []
      | Inr hc \<Rightarrow> aborted IndexError (disk hc) project (stdout hc))"


section \<open>Ledger states and their properties\<close>

text \<open>The storage that holds the chain \<open>bs\<close> as \<^verbatim>\<open>save\<close> writes it.\<close>

definition persisted :: "block list \<Rightarrow> storage" where
  "persisted bs = Dir (Some (Json (JList (map vars_block bs))))"

text \<open>
  The ledger states that the program reaches: a ledger is constructed against a storage
  location that holds no ledger yet (no directory, no file, or a file that is not JSON);
  \<^verbatim>\<open>add\<close> is called on a ledger; a later run constructs its ledger against the storage
  that an earlier run left.
\<close>

inductive reachable :: "state \<Rightarrow> bool" where
  fresh: "d \<in> {Absent, Dir None, Dir (Some Garbage)} \<Longrightarrow> init now d = Inr self \<Longrightarrow> reachable self"
| grant: "reachable self \<Longrightarrow> add r u now self = Some (Inr self') \<Longrightarrow> reachable self'"
| rerun: "reachable self \<Longrightarrow> init now (disk self) = Inr self' \<Longrightarrow> reachable self'"

text \<open>Every block but the first continues its predecessor.\<close>

fun linked :: "block list \<Rightarrow> bool" where
  "linked (a # b # bs) = (prev_hash b = hash a \<and> index b = index a + 1 \<and> linked (b # bs))"
| "linked _ = True"

text \<open>The proof-of-work predicate: the hash starts with \<open>difficulty\<close> zeros.\<close>

definition sealed :: "int \<Rightarrow> block \<Rightarrow> bool" where
  "sealed difficulty b = prefix (replicate (nat difficulty) CHR ''0'') (hash b)"

text \<open>What holds of every reachable ledger state.\<close>

definition ledger_inv :: "state \<Rightarrow> bool" where
  "ledger_inv self =
     (chain self \<noteq> [] \<and> disk self = persisted (chain self) \<and> linked (chain self) \<and>
      index (hd (chain self)) = 0 \<and> prev_hash (hd (chain self)) = ''0'' \<and>
      data (hd (chain self)) = ''Genesis'' \<and>
      list_all (sealed 2) (tl (chain self)) \<and>
      list_all (\<lambda>b. hash b = compute_hash b) (chain self))"


section \<open>A run of the program, for reference\<close>

text \<open>
  Two readings of the clock, the genesis block that the first gives, and the block that
  \<^verbatim>\<open>grant editor bob\<close> mines at the second: its hash at nonce 0 does not start with
  \<^verbatim>\<open>00\<close>, its hash at nonce 1 does. The timestamps have the form that
  \<^verbatim>\<open>str(datetime.datetime.now())\<close> gives.
\<close>

definition clock0 :: string where
  "clock0 = ''2025-03-14 09:26:53.589793''"

definition clock1 :: string where
  "clock1 = ''2025-03-14 09:27:01.000073''"

definition genesis_block :: block where
  "genesis_block =
     \<lparr>index = 0, timestamp = clock0, data = ''Genesis'', prev_hash = ''0'', nonce = 0,
      hash = ''727dd40b09bf62eb4d1d545d238f9355e433b76884d4d677be8cbf25dcc45218''\<rparr>"

definition bob_block :: block where
  "bob_block =
     \<lparr>index = 1, timestamp = clock1, data = ''editor:bob'', prev_hash = hash genesis_block, nonce = 1,
      hash = ''0048208de8bdbed20b00c41f348817b35c8d027495b2d7c1a6db75cf50e0c2e9''\<rparr>"

definition genesis_state :: state where
  "genesis_state = \<lparr>chain = [genesis_block], disk = persisted [genesis_block], stdout = []\<rparr>"

definition bob_state :: state where
  "bob_state =
     \<lparr>chain = [genesis_block, bob_block], disk = persisted [genesis_block, bob_block],
      stdout = [''Mined: '' @ hash bob_block]\<rparr>"

text \<open>
  A third reading of the clock, and the block that \<^verbatim>\<open>grant admin alice\<close> mines at it on
  the ledger that holds the genesis block only.
\<close>

definition clock2 :: string where
  "clock2 = ''2025-03-14 09:27:01.000415''"

definition alice_block :: block where
  "alice_block =
     \<lparr>index = 1, timestamp = clock2, data = ''admin:alice'', prev_hash = hash genesis_block, nonce = 1,
      hash = ''0079e44b7db6d91aed4dff530c6cca0da708dd88b7ed90a77d9313379ee1531e''\<rparr>"

definition alice_state :: state where
  "alice_state =
     \<lparr>chain = [genesis_block, alice_block], disk = persisted [genesis_block, alice_block],
      stdout = [''Mined: '' @ hash alice_block]\<rparr>"


section \<open>Checks of the digest and of the decimal notation\<close>

text \<open>
  The digest on the empty string, on a message of one chunk and on a message of two
  chunks (the published test vectors of SHA-256), and \<^verbatim>\<open>str\<close> on some integers.
\<close>

lemma sha256_abc:
  "sha256_hexdigest ''abc'' = ''ba7816bf8f01cfea414140de5dae2223b00361a396177a9cb410ff61f20015ad''"
  by code_simp

lemma sha256_empty:
  "sha256_hexdigest '''' = ''e3b0c44298fc1c149afbf4c8996fb92427ae41e4649b934ca495991b7852b855''"
  by code_simp

lemma sha256_two_chunks:
  "sha256_hexdigest ''abcdbcdecdefdefgefghfghighijhijkijkljklmklmnlmnomnopnopq''
     = ''248d6a61d20638b8e5c026930c3e6039a33ce45964ff2167f6ecedd419db06c1''"
  by code_simp

lemma str_int_examples:
  "str_int 0 = ''0''" "str_int 1 = ''1''" "str_int 1234 = ''1234''" "str_int (- 42) = ''-42''"
  by code_simp+


section \<open>Mining and loading\<close>

text \<open>
  Partial correctness of the mining loop by the induction rule of the partial function:
  a block that \<^verbatim>\<open>mine\<close> returns is sealed, has the attributes of the block given but for
  \<^verbatim>\<open>nonce\<close> and \<^verbatim>\<open>hash\<close>, and carries the digest of its own attributes if the block
  given did. Termination, by induction on the number of rounds: if some number of rounds
  of the loop reaches a sealed block, \<^verbatim>\<open>mine\<close> returns, after at most that many rounds.
\<close>

lemma mine_sealed: "mine d b = Some b' \<Longrightarrow> sealed d b'"
proof (induction d b b' rule: mine.raw_induct[rotated 1, consumes 1])
  case (1 rec d b b')
  show ?case
  proof (cases "prefix (replicate (nat d) CHR ''0'') (hash b)")
    case True
    with 1(2) show ?thesis by (simp add: sealed_def)
  next
    case False
    with 1(2) have "rec d (mine_step b) = Some b'" by simp
    from 1(1)[OF this] show ?thesis .
  qed
qed

lemma mine_step_fields [simp]:
  "index (mine_step b) = index b" "timestamp (mine_step b) = timestamp b"
  "data (mine_step b) = data b" "prev_hash (mine_step b) = prev_hash b"
  "nonce (mine_step b) = nonce b + 1" "hash (mine_step b) = compute_hash (mine_step b)"
  by (simp_all add: mine_step_def Let_def compute_hash_def block_str_def)

lemma mine_fields:
  "mine d b = Some b' \<Longrightarrow>
     index b' = index b \<and> timestamp b' = timestamp b \<and> data b' = data b \<and>
     prev_hash b' = prev_hash b \<and> nonce b \<le> nonce b'"
proof (induction d b b' rule: mine.raw_induct[rotated 1, consumes 1])
  case (1 rec d b b')
  show ?case
  proof (cases "prefix (replicate (nat d) CHR ''0'') (hash b)")
    case True
    with 1(2) show ?thesis by simp
  next
    case False
    with 1(2) have "rec d (mine_step b) = Some b'" by simp
    from 1(1)[OF this] show ?thesis by simp
  qed
qed

lemma mine_consistent:
  "mine d b = Some b' \<Longrightarrow> hash b = compute_hash b \<Longrightarrow> hash b' = compute_hash b'"
proof (induction d b b' rule: mine.raw_induct[rotated 1, consumes 1])
  case (1 rec d b b')
  show ?case
  proof (cases "prefix (replicate (nat d) CHR ''0'') (hash b)")
    case True
    with 1(2,3) show ?thesis by simp
  next
    case False
    with 1(2) have "rec d (mine_step b) = Some b'" by simp
    from 1(1)[OF this] show ?thesis by simp
  qed
qed

lemma mine_returns:
  "sealed d ((mine_step ^^ n) b) \<Longrightarrow> \<exists>m\<le>n. mine d b = Some ((mine_step ^^ m) b)"
proof (induction n arbitrary: b)
  case 0
  then show ?case by (subst mine.simps) (simp add: sealed_def)
next
  case (Suc n)
  show ?case
  proof (cases "sealed d b")
    case True
    then have "mine d b = Some ((mine_step ^^ 0) b)"
      by (subst mine.simps) (simp add: sealed_def)
    then show ?thesis by blast
  next
    case False
    from Suc.prems have "sealed d ((mine_step ^^ n) (mine_step b))"
      by (simp add: funpow_swap1)
    from Suc.IH[OF this] obtain m where m: "m \<le> n" "mine d (mine_step b) = Some ((mine_step ^^ m) (mine_step b))"
      by blast
    from False have "mine d b = mine d (mine_step b)"
      by (subst mine.simps) (simp add: sealed_def)
    with m have "mine d b = Some ((mine_step ^^ Suc m) b)"
      by (simp add: funpow_swap1)
    with m(1) show ?thesis by (metis Suc_le_mono)
  qed
qed

text \<open>Loading what \<^verbatim>\<open>save\<close> wrote, and constructing a ledger.\<close>

lemma load_block_vars: "load_block (vars_block b) = Inr b"
  by (simp add: load_block_def vars_block_def raising_def Block_init_def Let_def)

lemma load_blocks_vars: "load_blocks (map vars_block bs) = Inr bs"
  by (induction bs) (simp_all add: load_block_vars raising_def)

lemma init_persisted: "init now (persisted bs) = Inr \<lparr>chain = bs, disk = persisted bs, stdout = []\<rparr>"
  by (simp add: init_def persisted_def load_def raising_def load_blocks_vars Let_def)

lemma init_fresh:
  "d \<in> {Absent, Dir None, Dir (Some Garbage)} \<Longrightarrow>
   init now d = Inr \<lparr>chain = [Block_init 0 now ''Genesis'' ''0''],
                     disk = persisted [Block_init 0 now ''Genesis'' ''0''], stdout = []\<rparr>"
  by (auto simp: init_def load_def gen_def save_def persisted_def Let_def)


section \<open>The reference run, evaluated\<close>

text \<open>
  The canonical strings and their digests are evaluated by the simplifier with the code
  equations, so the blocks named in the reference run are the blocks that the program
  computes: the genesis block is not sealed, and both grants are sealed in the second
  round of the loop.
\<close>

lemma genesis_block_eq: "Block_init 0 clock0 ''Genesis'' ''0'' = genesis_block"
proof -
  have "block_str \<lparr>index = 0, timestamp = clock0, data = ''Genesis'', prev_hash = ''0'', nonce = 0, hash = []\<rparr>
        = ''02025-03-14 09:26:53.589793Genesis00''"
    by code_simp
  moreover have "sha256_hexdigest ''02025-03-14 09:26:53.589793Genesis00''
        = ''727dd40b09bf62eb4d1d545d238f9355e433b76884d4d677be8cbf25dcc45218''"
    by code_simp
  ultimately show ?thesis
    by (simp add: Block_init_def genesis_block_def compute_hash_def)
qed

lemma bob_block_unsealed:
  "Block_init 1 clock1 ''editor:bob'' (hash genesis_block) =
     \<lparr>index = 1, timestamp = clock1, data = ''editor:bob'', prev_hash = hash genesis_block, nonce = 0,
      hash = ''6b33548f72fe3249ae5e5d24a4225ea4136a11045759f67309d62fc4b3565c6a''\<rparr>"
proof -
  have "block_str \<lparr>index = 1, timestamp = clock1, data = ''editor:bob'', prev_hash = hash genesis_block, nonce = 0, hash = []\<rparr>
        = ''12025-03-14 09:27:01.000073editor:bob727dd40b09bf62eb4d1d545d238f9355e433b76884d4d677be8cbf25dcc452180''"
    by code_simp
  moreover have "sha256_hexdigest ''12025-03-14 09:27:01.000073editor:bob727dd40b09bf62eb4d1d545d238f9355e433b76884d4d677be8cbf25dcc452180''
        = ''6b33548f72fe3249ae5e5d24a4225ea4136a11045759f67309d62fc4b3565c6a''"
    by code_simp
  ultimately show ?thesis
    by (simp add: Block_init_def compute_hash_def)
qed

lemma bob_block_step:
  "mine_step \<lparr>index = 1, timestamp = clock1, data = ''editor:bob'', prev_hash = hash genesis_block, nonce = 0,
      hash = ''6b33548f72fe3249ae5e5d24a4225ea4136a11045759f67309d62fc4b3565c6a''\<rparr> = bob_block"
proof -
  have "block_str \<lparr>index = 1, timestamp = clock1, data = ''editor:bob'', prev_hash = hash genesis_block, nonce = 1,
           hash = ''6b33548f72fe3249ae5e5d24a4225ea4136a11045759f67309d62fc4b3565c6a''\<rparr>
        = ''12025-03-14 09:27:01.000073editor:bob727dd40b09bf62eb4d1d545d238f9355e433b76884d4d677be8cbf25dcc452181''"
    by code_simp
  moreover have "sha256_hexdigest ''12025-03-14 09:27:01.000073editor:bob727dd40b09bf62eb4d1d545d238f9355e433b76884d4d677be8cbf25dcc452181''
        = ''0048208de8bdbed20b00c41f348817b35c8d027495b2d7c1a6db75cf50e0c2e9''"
    by code_simp
  ultimately show ?thesis
    by (simp add: mine_step_def bob_block_def compute_hash_def)
qed

lemma target_2: "replicate 2 CHR ''0'' = ''00''"
  by (simp add: numeral_2_eq_2)

lemma bob_block_mined: "mine 2 (Block_init 1 clock1 ''editor:bob'' (hash genesis_block)) = Some bob_block"
proof -
  have "mine 2 (Block_init 1 clock1 ''editor:bob'' (hash genesis_block)) = mine 2 bob_block"
    by (subst mine.simps) (simp add: bob_block_unsealed bob_block_step target_2)
  also have "\<dots> = Some bob_block"
    by (subst mine.simps) (simp add: bob_block_def target_2)
  finally show ?thesis .
qed

lemma genesis_run: "init clock0 Absent = Inr genesis_state"
  by (simp add: init_def gen_def save_def genesis_block_eq genesis_state_def persisted_def)

lemma bob_run: "add ''editor'' ''bob'' clock1 genesis_state = Some (Inr bob_state)"
proof -
  have "index genesis_block + 1 = 1" by (simp add: genesis_block_def)
  then show ?thesis
    by (simp add: add_def genesis_state_def bob_state_def bob_block_mined save_def persisted_def)
qed

lemma alice_block_unsealed:
  "Block_init 1 clock2 ''admin:alice'' (hash genesis_block) =
     \<lparr>index = 1, timestamp = clock2, data = ''admin:alice'', prev_hash = hash genesis_block, nonce = 0,
      hash = ''c753d0a4f1beeb6a2b25770cb235b2c0cd018a46b124882804c915c61b9fa821''\<rparr>"
proof -
  have "block_str \<lparr>index = 1, timestamp = clock2, data = ''admin:alice'', prev_hash = hash genesis_block, nonce = 0, hash = []\<rparr>
        = ''12025-03-14 09:27:01.000415admin:alice727dd40b09bf62eb4d1d545d238f9355e433b76884d4d677be8cbf25dcc452180''"
    by code_simp
  moreover have "sha256_hexdigest ''12025-03-14 09:27:01.000415admin:alice727dd40b09bf62eb4d1d545d238f9355e433b76884d4d677be8cbf25dcc452180''
        = ''c753d0a4f1beeb6a2b25770cb235b2c0cd018a46b124882804c915c61b9fa821''"
    by code_simp
  ultimately show ?thesis
    by (simp add: Block_init_def compute_hash_def)
qed

lemma alice_block_step:
  "mine_step \<lparr>index = 1, timestamp = clock2, data = ''admin:alice'', prev_hash = hash genesis_block, nonce = 0,
      hash = ''c753d0a4f1beeb6a2b25770cb235b2c0cd018a46b124882804c915c61b9fa821''\<rparr> = alice_block"
proof -
  have "block_str \<lparr>index = 1, timestamp = clock2, data = ''admin:alice'', prev_hash = hash genesis_block, nonce = 1,
           hash = ''c753d0a4f1beeb6a2b25770cb235b2c0cd018a46b124882804c915c61b9fa821''\<rparr>
        = ''12025-03-14 09:27:01.000415admin:alice727dd40b09bf62eb4d1d545d238f9355e433b76884d4d677be8cbf25dcc452181''"
    by code_simp
  moreover have "sha256_hexdigest ''12025-03-14 09:27:01.000415admin:alice727dd40b09bf62eb4d1d545d238f9355e433b76884d4d677be8cbf25dcc452181''
        = ''0079e44b7db6d91aed4dff530c6cca0da708dd88b7ed90a77d9313379ee1531e''"
    by code_simp
  ultimately show ?thesis
    by (simp add: mine_step_def alice_block_def compute_hash_def)
qed

lemma alice_block_mined:
  "mine 2 (Block_init 1 clock2 ''admin:alice'' (hash genesis_block)) = Some alice_block"
proof -
  have "mine 2 (Block_init 1 clock2 ''admin:alice'' (hash genesis_block)) = mine 2 alice_block"
    by (subst mine.simps) (simp add: alice_block_unsealed alice_block_step target_2)
  also have "\<dots> = Some alice_block"
    by (subst mine.simps) (simp add: alice_block_def target_2)
  finally show ?thesis .
qed

lemma alice_run: "add ''admin'' ''alice'' clock2 genesis_state = Some (Inr alice_state)"
proof -
  have "index genesis_block + 1 = 1" by (simp add: genesis_block_def)
  then show ?thesis
    by (simp add: add_def genesis_state_def alice_state_def alice_block_mined save_def persisted_def)
qed

text \<open>
  An earlier copy of \<^verbatim>\<open>load\<close> would give the mined block back with nonce 0 and the hash
  of nonce 0, which is not the block saved.
\<close>

lemma earlier_load_resets:
  "load_block_earlier (vars_block bob_block) =
     Inr \<lparr>index = 1, timestamp = clock1, data = ''editor:bob'', prev_hash = hash genesis_block, nonce = 0,
          hash = ''6b33548f72fe3249ae5e5d24a4225ea4136a11045759f67309d62fc4b3565c6a''\<rparr>"
  "load_block_earlier (vars_block bob_block) \<noteq> Inr bob_block"
proof -
  have "load_block_earlier (vars_block bob_block) =
      Inr (Block_init 1 clock1 ''editor:bob'' (hash genesis_block))"
    by (simp add: load_block_earlier_def vars_block_def raising_def bob_block_def)
  then show "load_block_earlier (vars_block bob_block) =
     Inr \<lparr>index = 1, timestamp = clock1, data = ''editor:bob'', prev_hash = hash genesis_block, nonce = 0,
          hash = ''6b33548f72fe3249ae5e5d24a4225ea4136a11045759f67309d62fc4b3565c6a''\<rparr>"
    by (simp only: bob_block_unsealed)
  then show "load_block_earlier (vars_block bob_block) \<noteq> Inr bob_block"
    by (simp add: bob_block_def)
qed


section \<open>The invariant of reachable states\<close>

text \<open>
  \<open>ledger_inv\<close> holds after the construction of a ledger on storage that holds none, is
  kept by \<^verbatim>\<open>add\<close> and is kept by a later run that loads the file, so it holds in every
  reachable state.
\<close>

lemma Block_init_fields [simp]:
  "index (Block_init i t d p) = i" "timestamp (Block_init i t d p) = t"
  "data (Block_init i t d p) = d" "prev_hash (Block_init i t d p) = p"
  "nonce (Block_init i t d p) = 0"
  by (simp_all add: Block_init_def)

lemma Block_init_consistent: "hash (Block_init i t d p) = compute_hash (Block_init i t d p)"
  by (simp add: Block_init_def compute_hash_def block_str_def)

lemma prefix_00: "prefix ''00'' h \<longleftrightarrow> take 2 h = ''00''"
proof
  assume "prefix ''00'' h"
  then obtain r where "h = ''00'' @ r" by (auto elim: prefixE)
  then show "take 2 h = ''00''" by simp
next
  assume "take 2 h = ''00''"
  then have "h = ''00'' @ drop 2 h" by (metis append_take_drop_id)
  then show "prefix ''00'' h" by (metis prefixI)
qed

lemma sealed_2: "sealed 2 b \<longleftrightarrow> take 2 (hash b) = ''00''"
  by (simp add: sealed_def target_2 prefix_00)

lemma add_Inr:
  assumes "add r u now self = Some (Inr self')"
  obtains b' where
    "chain self \<noteq> []"
    "mine 2 (Block_init (index (last (chain self)) + 1) now (r @ '':'' @ u) (hash (last (chain self)))) = Some b'"
    "chain self' = chain self @ [b']"
    "disk self' = persisted (chain self @ [b'])"
    "stdout self' = stdout self @ [''Mined: '' @ hash b']"
  using assms
  by (auto simp: add_def Let_def save_def persisted_def split: if_splits option.splits sum.splits storage.splits)

lemma add_returns:
  assumes "chain self \<noteq> []" and "disk self \<noteq> Absent"
    and "mine 2 (Block_init (index (last (chain self)) + 1) now (r @ '':'' @ u) (hash (last (chain self)))) = Some b'"
  shows "add r u now self =
           Some (Inr (self\<lparr>chain := chain self @ [b'], disk := persisted (chain self @ [b']),
                          stdout := stdout self @ [''Mined: '' @ hash b']\<rparr>))"
  using assms
  by (auto simp: add_def Let_def save_def persisted_def split: storage.splits)

lemma linked_append:
  "linked (bs @ [b]) \<longleftrightarrow>
     linked bs \<and> (bs \<noteq> [] \<longrightarrow> prev_hash b = hash (last bs) \<and> index b = index (last bs) + 1)"
  by (induction bs rule: linked.induct) auto

lemma linked_Suc:
  "linked bs \<Longrightarrow> Suc j < length bs \<Longrightarrow>
     prev_hash (bs ! Suc j) = hash (bs ! j) \<and> index (bs ! Suc j) = index (bs ! j) + 1"
proof (induction bs arbitrary: j rule: linked.induct)
  case (1 a b bs)
  show ?case
  proof (cases j)
    case 0
    with 1(2) show ?thesis by simp
  next
    case (Suc k)
    with 1(3) have "Suc k < length (b # bs)" by simp
    with 1(1)[of k] 1(2) Suc show ?thesis by simp
  qed
qed auto

lemma linked_nth:
  assumes "linked bs" and "0 < i" and "i < length bs"
  shows "prev_hash (bs ! i) = hash (bs ! (i - 1)) \<and> index (bs ! i) = index (bs ! (i - 1)) + 1"
proof -
  from assms(2) obtain j where j: "i = Suc j" by (cases i) auto
  with assms(3) have "Suc j < length bs" by simp
  from linked_Suc[OF assms(1) this] j show ?thesis by simp
qed

lemma ledger_inv_fresh: "ledger_inv \<lparr>chain = [Block_init 0 now ''Genesis'' ''0''],
     disk = persisted [Block_init 0 now ''Genesis'' ''0''], stdout = []\<rparr>"
  by (simp add: ledger_inv_def Block_init_consistent)

lemma ledger_inv_add:
  assumes "ledger_inv self" and "add r u now self = Some (Inr self')"
  shows "ledger_inv self'"
proof -
  from assms(2) obtain b' where b':
    "chain self \<noteq> []"
    "mine 2 (Block_init (index (last (chain self)) + 1) now (r @ '':'' @ u) (hash (last (chain self)))) = Some b'"
    "chain self' = chain self @ [b']"
    "disk self' = persisted (chain self @ [b'])"
    by (rule add_Inr)
  from mine_fields[OF b'(2)] have f: "index b' = index (last (chain self)) + 1"
    "prev_hash b' = hash (last (chain self))" by simp_all
  from mine_sealed[OF b'(2)] have s: "sealed 2 b'" .
  from mine_consistent[OF b'(2) Block_init_consistent] have c: "hash b' = compute_hash b'" .
  from b'(1) have t: "tl (chain self @ [b']) = tl (chain self) @ [b']" by simp
  from assms(1) b'(1) f s c show ?thesis
    unfolding ledger_inv_def b'(3) b'(4) t
    by (simp add: linked_append)
qed

lemma ledger_inv_rerun:
  assumes "ledger_inv self" and "init now (disk self) = Inr self'"
  shows "ledger_inv self'"
proof -
  from assms(1) have "disk self = persisted (chain self)" by (simp add: ledger_inv_def)
  with assms(2) have "self' = \<lparr>chain = chain self, disk = persisted (chain self), stdout = []\<rparr>"
    by (simp add: init_persisted)
  with assms(1) show ?thesis by (simp add: ledger_inv_def)
qed

lemma reachable_inv: "reachable self \<Longrightarrow> ledger_inv self"
proof (induction rule: reachable.induct)
  case (fresh d now self)
  from init_fresh[OF fresh(1), of now] fresh(2)
  have "self = \<lparr>chain = [Block_init 0 now ''Genesis'' ''0''],
     disk = persisted [Block_init 0 now ''Genesis'' ''0''], stdout = []\<rparr>" by simp
  then show ?case by (simp only: ledger_inv_fresh)
next
  case (grant self r u now self')
  then show ?case by (blast intro: ledger_inv_add)
next
  case (rerun self now self')
  then show ?case by (blast intro: ledger_inv_rerun)
qed

lemma reachable_genesis_state: "reachable genesis_state"
  by (rule reachable.fresh[of Absent clock0]) (simp_all add: genesis_run)

lemma reachable_bob_state: "reachable bob_state"
  by (rule reachable.grant[OF reachable_genesis_state bob_run])


section \<open>Lookup, and a grant on a fresh ledger\<close>

text \<open>
  The loop of \<^verbatim>\<open>verify\<close> finds a block exactly when some block of the chain holds the
  needle, and reads nothing but the payloads.
\<close>

lemma verify_loop_iff: "verify_loop needle bs \<longleftrightarrow> (\<exists>b\<in>set bs. sublist needle (data b))"
  by (induction bs) auto

lemma verify_iff: "verify r u self \<longleftrightarrow> (\<exists>b\<in>set (chain self). sublist (r @ '':'' @ u) (data b))"
  by (simp add: verify_def verify_loop_iff)

lemma verify_loop_payloads: "verify_loop needle bs = list_ex (sublist needle) (map data bs)"
  by (induction bs) auto

lemma verify_payloads:
  assumes "map data (chain other) = map data (chain self)"
  shows "verify r u other = verify r u self"
  by (simp add: verify_def verify_loop_payloads rev_map[symmetric] assms)

lemma adm_alice_absent:
  "\<not> sublist ''adm:alice'' ''Genesis''" "\<not> sublist ''adm:alice'' ''admin:alice''"
  by code_simp+

lemma fresh_then_add:
  assumes "init now0 Absent = Inr s0" and "add r u now1 s0 = Some (Inr s1)"
  obtains b' where "chain s1 = [Block_init 0 now0 ''Genesis'' ''0'', b']"
    "index b' = 1" "prev_hash b' = hash (Block_init 0 now0 ''Genesis'' ''0'')"
    "data b' = r @ '':'' @ u" "sealed 2 b'" "timestamp b' = now1"
proof -
  from assms(1) have s0: "chain s0 = [Block_init 0 now0 ''Genesis'' ''0'']"
    using init_fresh[of Absent now0] by auto
  from assms(2) obtain b' where b':
    "mine 2 (Block_init (index (last (chain s0)) + 1) now1 (r @ '':'' @ u) (hash (last (chain s0)))) = Some b'"
    "chain s1 = chain s0 @ [b']"
    by (rule add_Inr)
  from mine_fields[OF b'(1)] mine_sealed[OF b'(1)] s0 b'(2) that show thesis by simp
qed


section \<open>The \<^verbatim>\<open>__main__\<close> blocks on missing arguments\<close>

text \<open>
  What each form of block does when the verb is missing, or when the verb is \<^verbatim>\<open>grant\<close> or
  \<^verbatim>\<open>verify\<close> and role or user is missing, for any copy of the class; and what the
  constructors of the three kinds of copy do on storage that holds a saved chain and on
  storage without the ledger directory.
\<close>

lemma genesis_block_str:
  "block_str \<lparr>index = 0, timestamp = now, data = ''Genesis'', prev_hash = ''0'', nonce = 0, hash = h\<rparr>
     = ''0'' @ now @ ''Genesis'' @ ''0'' @ ''0''"
  by (simp add: block_str_def str_int_examples)

lemma Block_init_genesis:
  "Block_init 0 now ''Genesis'' ''0'' =
     \<lparr>index = 0, timestamp = now, data = ''Genesis'', prev_hash = ''0'', nonce = 0,
      hash = sha256_hexdigest (''0'' @ now @ ''Genesis'' @ ''0'' @ ''0'')\<rparr>"
  by (simp add: Block_init_def compute_hash_def genesis_block_str)

lemma add_difficulty_2: "add_difficulty 2 = add"
  by (intro ext) (simp add: add_difficulty_def add_def)

lemma load_block_earlier_vars:
  "load_block_earlier (vars_block b) =
     Inr (Block_init (index b) (timestamp b) (data b) (prev_hash b))"
  by (simp add: load_block_earlier_def vars_block_def raising_def)

lemma load_blocks_earlier_vars:
  "load_blocks_earlier (map vars_block bs) =
     Inr (map (\<lambda>b. Block_init (index b) (timestamp b) (data b) (prev_hash b)) bs)"
  by (induction bs) (simp_all add: load_block_earlier_vars raising_def)

lemma init_first_persisted:
  "init_first now (persisted bs) =
     Inr \<lparr>chain = map (\<lambda>b. Block_init (index b) (timestamp b) (data b) (prev_hash b)) bs,
          disk = persisted bs, stdout = []\<rparr>"
  by (simp add: init_first_def load_first_def persisted_def raising_def load_blocks_earlier_vars)

lemma init_earlier_persisted:
  "init_earlier now (persisted bs) =
     Inr \<lparr>chain = map (\<lambda>b. Block_init (index b) (timestamp b) (data b) (prev_hash b)) bs,
          disk = persisted bs, stdout = []\<rparr>"
  by (simp add: init_earlier_def load_earlier_def persisted_def raising_def load_blocks_earlier_vars)

lemma init_first_Absent:
  "init_first now Absent =
     Inr \<lparr>chain = [Block_init 0 now ''Genesis'' ''0''],
          disk = persisted [Block_init 0 now ''Genesis'' ''0''], stdout = []\<rparr>"
  by (simp add: init_first_def gen_def save_def persisted_def)

lemma init_earlier_Absent:
  "init_earlier now Absent =
     Inr \<lparr>chain = [Block_init 0 now ''Genesis'' ''0''],
          disk = persisted [Block_init 0 now ''Genesis'' ''0''], stdout = []\<rparr>"
  by (simp add: init_earlier_def gen_def save_def persisted_def)

lemma init_Absent:
  "init now Absent =
     Inr \<lparr>chain = [Block_init 0 now ''Genesis'' ''0''],
          disk = persisted [Block_init 0 now ''Genesis'' ''0''], stdout = []\<rparr>"
  using init_fresh[of Absent now] by simp

lemma constructed_only_copies:
  assumes "K \<in> {class_first, class_earlier difficulty, class_last}"
  shows "constructed_only K now (persisted bs) project out = finished (persisted bs) project out"
    and "constructed_only K now Absent project out =
           finished (persisted [Block_init 0 now ''Genesis'' ''0'']) project out"
    and "constructed_then_IndexError K now (persisted bs) project =
           aborted IndexError (persisted bs) project []"
    and "constructed_then_IndexError K now Absent project =
           aborted IndexError (persisted [Block_init 0 now ''Genesis'' ''0'']) project []"
proof -
  from assms consider "K = class_first" | "K = class_earlier difficulty" | "K = class_last"
    by blast
  then have c: "init_method K now (persisted bs) = init_first now (persisted bs) \<or>
                init_method K now (persisted bs) = init now (persisted bs)"
    and a: "init_method K now Absent =
              Inr \<lparr>chain = [Block_init 0 now ''Genesis'' ''0''],
                   disk = persisted [Block_init 0 now ''Genesis'' ''0''], stdout = []\<rparr>"
    by (cases; simp add: class_first_def class_earlier_def class_last_def init_first_persisted
          init_earlier_persisted init_first_Absent init_earlier_Absent init_Absent)+
  from c show "constructed_only K now (persisted bs) project out = finished (persisted bs) project out"
    by (auto simp: constructed_only_def init_first_persisted init_persisted)
  from c show "constructed_then_IndexError K now (persisted bs) project =
           aborted IndexError (persisted bs) project []"
    by (auto simp: constructed_then_IndexError_def init_first_persisted init_persisted)
  from a show "constructed_only K now Absent project out =
           finished (persisted [Block_init 0 now ''Genesis'' ''0'']) project out"
    by (simp add: constructed_only_def)
  from a show "constructed_then_IndexError K now Absent project =
           aborted IndexError (persisted [Block_init 0 now ''Genesis'' ''0'']) project []"
    by (simp add: constructed_then_IndexError_def)
qed

lemma role_or_user_missingD:
  assumes "role_or_user_missing argv"
  shows "\<not> length argv < 2" "\<not> 4 \<le> length argv" "length argv < 4" "2 \<le> length argv"
    "argv ! 1 = ''grant'' \<or> argv ! 1 = ''verify''" "argv ! 1 \<noteq> ''build''"
  using assms by (auto simp: role_or_user_missing_def)

lemma main_first_role_or_user:
  assumes "role_or_user_missing argv"
  shows "main_first K argv now0 now1 now2 d project = Some (constructed_then_IndexError K now0 d project)"
proof (cases "init_method K now0 d")
  case (Inl e)
  then show ?thesis by (simp add: main_first_def constructed_then_IndexError_def)
next
  case (Inr hc)
  from role_or_user_missingD[OF assms] consider "argv ! 1 = ''grant''" | "argv ! 1 = ''verify''"
    by blast
  then show ?thesis
  proof cases
    case 1
    with Inr role_or_user_missingD(1,3)[OF assms] show ?thesis
      by (simp add: main_first_def constructed_then_IndexError_def)
  next
    case 2
    with Inr role_or_user_missingD(1,3)[OF assms] show ?thesis
      by (simp add: main_first_def constructed_then_IndexError_def)
  qed
qed

lemma main_first_no_verb:
  assumes "verb_missing argv"
  shows "main_first K argv now0 now1 now2 d project = Some (constructed_then_IndexError K now0 d project)"
  using assms
  by (cases "init_method K now0 d")
     (simp_all add: main_first_def constructed_then_IndexError_def verb_missing_def)

lemma main_standard_role_or_user:
  assumes "role_or_user_missing argv"
  shows "main_standard K argv now0 now1 d project = Some (constructed_only K now0 d project [invalid_line])"
  using role_or_user_missingD(1,2)[OF assms]
  by (cases "init_method K now0 d") (simp_all add: main_standard_def constructed_only_def)

lemma main_standard_no_verb:
  assumes "verb_missing argv"
  shows "main_standard K argv now0 now1 d project = Some (constructed_only K now0 d project [usage_line])"
  using assms
  by (cases "init_method K now0 d")
     (simp_all add: main_standard_def constructed_only_def verb_missing_def)

lemma main_consolidated_role_or_user:
  assumes "role_or_user_missing argv"
  shows "main_consolidated K argv now0 now1 d project = Some (constructed_only K now0 d project [usage_line])"
  using role_or_user_missingD(2,4,5,6)[OF assms]
  by (cases "init_method K now0 d") (auto simp: main_consolidated_def constructed_only_def)

lemma main_consolidated_no_verb:
  assumes "verb_missing argv"
  shows "main_consolidated K argv now0 now1 d project = Some (main_build d project)"
  using assms by (simp add: main_consolidated_def verb_missing_def)

lemma main_last_role_or_user:
  assumes "role_or_user_missing argv"
  shows "main_last K argv now0 now1 d project =
           Some (constructed_only K now0 d project
                   [if argv ! 1 = ''grant'' then usage_grant_line else usage_verify_line])"
  using role_or_user_missingD(2,4,5)[OF assms]
  by (cases "init_method K now0 d") (auto simp: main_last_def constructed_only_def)

lemma main_last_no_verb:
  assumes "verb_missing argv"
  shows "main_last K argv now0 now1 d project = Some (main_build d project)"
  using assms by (simp add: main_last_def verb_missing_def)

lemma main_build_storage:
  "ledger_storage (main_build d project) = d" "uncaught (main_build d project) = None"
  by (simp_all add: main_build_def finished_def Let_def)

lemma class_methods [simp]:
  "init_method class_last = init" "init_method class_first = init_first"
  "init_method (class_earlier difficulty) = init_earlier"
  by (simp_all add: class_last_def class_first_def class_earlier_def)

lemma build_report_empty_project:
  "main_build d [] =
     finished d
       [''requirements.txt'', ''package.json'', ''heady-manager.js'', ''src/process_data.py'',
        ''render.yaml'']
       [replicate 50 CHR ''='', ''HeadySystems Build & Repair Cycle'', replicate 50 CHR ''='',
        CHR 0x0A # ''[STEP 1] Infrastructure Audit'',
        ''[MISSING] render.yaml'', ''[MISSING] requirements.txt'', ''[MISSING] package.json'',
        ''[MISSING] heady-manager.js'', ''[MISSING] src/process_data.py'',
        CHR 0x0A # ''[STEP 2] Dependency Resolution'',
        ''[GENERATED] requirements.txt'', ''[GENERATED] package.json'',
        CHR 0x0A # ''[STEP 3] Code Repair'',
        ''[GENERATED] heady-manager.js'', ''[GENERATED] src/process_data.py'',
        ''[GENERATED] render.yaml'',
        CHR 0x0A # ''[STEP 4] Build Simulation'',
        ''Ready for: git add . && git commit -m 'Build repair' && git push'',
        CHR 0x0A # ''[COMPLETE] Project ready for Render deployment'']"
  by (simp add: main_build_def run_build_repair_def audit_infrastructure_def required_files_def
      generate_if_missing_def generate_def Let_def)

lemma and_then_finished:
  "and_then (Some (finished d project out)) second =
     (case second d project of None \<Rightarrow> None | Some r \<Rightarrow> Some (r\<lparr>printed := out @ printed r\<rparr>))"
  by (simp add: and_then_def finished_def split: option.splits)

lemma grant_alone:
  "role_or_user_missing [''Heady_Chain.py'', ''grant'']"
  "verb_missing [''Heady_Chain.py'']"
  by (simp_all add: role_or_user_missing_def verb_missing_def)


section \<open>The claims\<close>

text \<open>
  \<^bold>\<open>C1\<close> (chain linkage). In every reachable ledger state, every block after the
  first names the hash of its predecessor as its \<^verbatim>\<open>prev_hash\<close> and has the predecessor's
  index plus one.
\<close>

theorem chain_linkage:
  "reachable self \<Longrightarrow> 0 < i \<Longrightarrow> i < length (chain self) \<Longrightarrow>
     prev_hash (chain self ! i) = hash (chain self ! (i - 1)) \<and>
     index (chain self ! i) = index (chain self ! (i - 1)) + 1"
proof -
  assume r: "reachable self" and i: "0 < i" "i < length (chain self)"
  from reachable_inv[OF r] have "linked (chain self)" by (simp add: ledger_inv_def)
  from linked_nth[OF this i] show ?thesis .
qed

theorem chain_linkage_witness:
  "reachable bob_state \<and> (0::nat) < 1 \<and> 1 < length (chain bob_state) \<and>
     prev_hash (chain bob_state ! 1) = hash (chain bob_state ! (1 - 1)) \<and>
     index (chain bob_state ! 1) = index (chain bob_state ! (1 - 1)) + 1"
proof -
  have l: "1 < length (chain bob_state)" by (simp add: bob_state_def)
  from chain_linkage[OF reachable_bob_state _ l] reachable_bob_state l show ?thesis by simp
qed

text \<open>
  \<^bold>\<open>C2\<close> (lookup by substring). \<^verbatim>\<open>verify(role, user)\<close> is true exactly when the
  \<^verbatim>\<open>data\<close> of some block of the chain contains \<^verbatim>\<open>role:user\<close> as a substring. The answer
  depends on the stored payloads only: two ledgers with the same payloads in the same order
  give the same answer, whatever their hashes. After \<^verbatim>\<open>grant admin alice\<close> on a fresh
  ledger, \<^verbatim>\<open>verify adm alice\<close> is false.
\<close>

theorem verify_substring:
  "(verify r u self \<longleftrightarrow> (\<exists>b\<in>set (chain self). sublist (r @ '':'' @ u) (data b))) \<and>
   (map data (chain other) = map data (chain self) \<longrightarrow> verify r u other = verify r u self) \<and>
   (init now0 Absent = Inr s0 \<and> add ''admin'' ''alice'' now1 s0 = Some (Inr s1)
      \<longrightarrow> \<not> verify ''adm'' ''alice'' s1)"
proof (intro conjI impI)
  show "verify r u self \<longleftrightarrow> (\<exists>b\<in>set (chain self). sublist (r @ '':'' @ u) (data b))"
    by (rule verify_iff)
next
  assume "map data (chain other) = map data (chain self)"
  then show "verify r u other = verify r u self" by (rule verify_payloads)
next
  assume a: "init now0 Absent = Inr s0 \<and> add ''admin'' ''alice'' now1 s0 = Some (Inr s1)"
  then obtain b' where "chain s1 = [Block_init 0 now0 ''Genesis'' ''0'', b']"
    and "data b' = ''admin'' @ '':'' @ ''alice''"
    by (blast elim: fresh_then_add)
  then show "\<not> verify ''adm'' ''alice'' s1"
    using adm_alice_absent by (simp add: verify_iff)
qed

theorem verify_substring_witness:
  "verify ''editor'' ''bob'' bob_state \<and>
   sublist (''editor'' @ '':'' @ ''bob'') (data bob_block) \<and>
   \<not> verify ''editor'' ''carol'' bob_state \<and>
   map data (chain (bob_state\<lparr>chain := map (\<lambda>b. b\<lparr>hash := ''tampered''\<rparr>) (chain bob_state)\<rparr>))
     = map data (chain bob_state) \<and>
   verify ''editor'' ''bob'' (bob_state\<lparr>chain := map (\<lambda>b. b\<lparr>hash := ''tampered''\<rparr>) (chain bob_state)\<rparr>) \<and>
   init clock0 Absent = Inr genesis_state \<and>
   add ''admin'' ''alice'' clock2 genesis_state = Some (Inr alice_state) \<and>
   \<not> verify ''adm'' ''alice'' alice_state"
proof -
  let ?other = "bob_state\<lparr>chain := map (\<lambda>b. b\<lparr>hash := ''tampered''\<rparr>) (chain bob_state)\<rparr>"
  have sub: "sublist (''editor'' @ '':'' @ ''bob'') (data bob_block)"
    by (simp add: bob_block_def)
  have nsub: "\<not> sublist ''editor:carol'' ''Genesis''" "\<not> sublist ''editor:carol'' ''editor:bob''"
    by code_simp+
  have same: "map data (chain ?other) = map data (chain bob_state)"
    by (simp add: bob_state_def)
  have v1: "verify ''editor'' ''bob'' bob_state"
    using verify_substring[of "''editor''" "''bob''" bob_state] sub
    by (simp add: bob_state_def)
  have v2: "\<not> verify ''editor'' ''carol'' bob_state"
    using verify_substring[of "''editor''" "''carol''" bob_state] nsub
    by (simp add: bob_state_def genesis_block_def bob_block_def)
  have v3: "verify ''editor'' ''bob'' ?other"
    using verify_substring[of "''editor''" "''bob''" bob_state ?other] same v1 by blast
  have v4: "\<not> verify ''adm'' ''alice'' alice_state"
    using verify_substring[of _ _ _ _ clock0 genesis_state clock2 alice_state] genesis_run alice_run
    by blast
  from sub same v1 v2 v3 v4 genesis_run alice_run show ?thesis by blast
qed

text \<open>
  \<^bold>\<open>C3\<close> (persistence round trip). Where the ledger directory exists, \<^verbatim>\<open>save\<close>
  succeeds and keeps the chain, and \<^verbatim>\<open>load\<close> (from any chain in memory, and so also a
  ledger constructed against the storage that \<^verbatim>\<open>save\<close> left) gives back the same sequence
  of blocks: the six attributes of every block, the stored \<^verbatim>\<open>nonce\<close> and \<^verbatim>\<open>hash\<close> as they
  were written.
\<close>

theorem save_load_round_trip:
  "disk self \<noteq> Absent \<Longrightarrow>
   \<exists>saved. save self = Inr saved \<and> chain saved = chain self \<and>
     (\<forall>bs. load now (saved\<lparr>chain := bs\<rparr>) = Inr saved) \<and>
     init now (disk saved) = Inr \<lparr>chain = chain self, disk = disk saved, stdout = []\<rparr>"
proof -
  assume "disk self \<noteq> Absent"
  then have s: "save self = Inr (self\<lparr>disk := persisted (chain self)\<rparr>)"
    by (cases "disk self") (simp_all add: save_def persisted_def)
  have l: "load now (self\<lparr>disk := persisted (chain self), chain := bs\<rparr>) = Inr (self\<lparr>disk := persisted (chain self)\<rparr>)" for bs
    by (simp add: load_def persisted_def raising_def load_blocks_vars)
  from s l show ?thesis by (simp add: init_persisted)
qed

theorem save_load_round_trip_witness:
  "disk \<lparr>chain = [\<lparr>index = 5, timestamp = ''then'', data = ''admin:alice'', prev_hash = ''abc'', nonce = 7,
                    hash = ''not the digest''\<rparr>], disk = Dir None, stdout = []\<rparr> \<noteq> Absent \<and>
   save \<lparr>chain = [\<lparr>index = 5, timestamp = ''then'', data = ''admin:alice'', prev_hash = ''abc'', nonce = 7,
                    hash = ''not the digest''\<rparr>], disk = Dir None, stdout = []\<rparr>
     = Inr \<lparr>chain = [\<lparr>index = 5, timestamp = ''then'', data = ''admin:alice'', prev_hash = ''abc'', nonce = 7,
                    hash = ''not the digest''\<rparr>],
            disk = Dir (Some (Json (JList [JObj [(''index'', JInt 5), (''timestamp'', JStr ''then''),
              (''data'', JStr ''admin:alice''), (''prev_hash'', JStr ''abc''), (''nonce'', JInt 7),
              (''hash'', JStr ''not the digest'')]]))),
            stdout = []\<rparr> \<and>
   init ''now''
       (Dir (Some (Json (JList [JObj [(''index'', JInt 5), (''timestamp'', JStr ''then''),
              (''data'', JStr ''admin:alice''), (''prev_hash'', JStr ''abc''), (''nonce'', JInt 7),
              (''hash'', JStr ''not the digest'')]]))))
     = Inr \<lparr>chain = [\<lparr>index = 5, timestamp = ''then'', data = ''admin:alice'', prev_hash = ''abc'', nonce = 7,
                    hash = ''not the digest''\<rparr>],
            disk = Dir (Some (Json (JList [JObj [(''index'', JInt 5), (''timestamp'', JStr ''then''),
              (''data'', JStr ''admin:alice''), (''prev_hash'', JStr ''abc''), (''nonce'', JInt 7),
              (''hash'', JStr ''not the digest'')]]))),
            stdout = []\<rparr>"
  using save_load_round_trip[of "\<lparr>chain = [\<lparr>index = 5, timestamp = ''then'', data = ''admin:alice'', prev_hash = ''abc'', nonce = 7,
                    hash = ''not the digest''\<rparr>], disk = Dir None, stdout = []\<rparr>" "''now''"]
  by (simp add: save_def vars_block_def)

text \<open>
  \<^bold>\<open>C4\<close> (fallback to genesis), as the code has it. When the ledger file is missing or
  its text is not JSON, \<^verbatim>\<open>load\<close> on the empty chain of the constructor leaves one fresh
  genesis block and writes it over the file. A file that is JSON but holds a record
  without one of the four keys is not answered by the fallback: the \<^verbatim>\<open>KeyError\<close> leaves
  the constructor, as the evaluation after the theorem shows.
\<close>

theorem load_fallback:
  "disk self \<in> {Dir None, Dir (Some Garbage)} \<Longrightarrow> chain self = [] \<Longrightarrow>
   load now self =
     Inr (self\<lparr>chain := [Block_init 0 now ''Genesis'' ''0''],
               disk := persisted [Block_init 0 now ''Genesis'' ''0'']\<rparr>) \<and>
   init now (disk self) =
     Inr \<lparr>chain = [Block_init 0 now ''Genesis'' ''0''],
          disk = persisted [Block_init 0 now ''Genesis'' ''0''], stdout = []\<rparr>"
proof -
  assume d: "disk self \<in> {Dir None, Dir (Some Garbage)}" and c: "chain self = []"
  from d c have "load now self =
     Inr (self\<lparr>chain := [Block_init 0 now ''Genesis'' ''0''],
               disk := persisted [Block_init 0 now ''Genesis'' ''0'']\<rparr>)"
    by (auto simp: load_def gen_def save_def persisted_def)
  moreover from d have "init now (disk self) =
     Inr \<lparr>chain = [Block_init 0 now ''Genesis'' ''0''],
          disk = persisted [Block_init 0 now ''Genesis'' ''0''], stdout = []\<rparr>"
    by (intro init_fresh) auto
  ultimately show ?thesis by simp
qed

theorem load_fallback_witness:
  "disk \<lparr>chain = [], disk = Dir (Some Garbage), stdout = []\<rparr> \<in> {Dir None, Dir (Some Garbage)} \<and>
   chain \<lparr>chain = [], disk = Dir (Some Garbage), stdout = []\<rparr> = [] \<and>
   load clock0 \<lparr>chain = [], disk = Dir (Some Garbage), stdout = []\<rparr> = Inr genesis_state \<and>
   init clock0 (Dir (Some Garbage)) = Inr genesis_state"
  using load_fallback[of "\<lparr>chain = [], disk = Dir (Some Garbage), stdout = []\<rparr>" clock0]
  by (simp add: genesis_block_eq genesis_state_def)

theorem load_unreadable_record_counterexample:
  "init clock0 (Dir (Some (Json (JList [JObj []])))) = Inl (KeyError ''index'')"
  by (simp add: init_def load_def load_block_def raising_def)

text \<open>
  \<^bold>\<open>C5\<close> (proof of work at difficulty 2). When \<^verbatim>\<open>add\<close> returns, the hash of the block
  it appended starts with \<^verbatim>\<open>00\<close>; in a reachable ledger state every block but the first
  has such a hash; and \<^verbatim>\<open>grant editor bob\<close> on a fresh ledger gives a chain of two blocks
  whose second block has index 1, the genesis hash as \<^verbatim>\<open>prev_hash\<close>, the payload
  \<^verbatim>\<open>editor:bob\<close> and a hash that starts with \<^verbatim>\<open>00\<close>.
\<close>

theorem proof_of_work:
  "(add r u now self = Some (Inr self') \<longrightarrow> take 2 (hash (last (chain self'))) = ''00'') \<and>
   (reachable ledger \<and> 0 < i \<and> i < length (chain ledger) \<longrightarrow>
      take 2 (hash (chain ledger ! i)) = ''00'') \<and>
   (init now0 Absent = Inr s0 \<and> add ''editor'' ''bob'' now1 s0 = Some (Inr s1) \<longrightarrow>
      length (chain s1) = 2 \<and> index (chain s1 ! 1) = 1 \<and>
      prev_hash (chain s1 ! 1) = hash (chain s1 ! 0) \<and> data (chain s1 ! 1) = ''editor:bob'' \<and>
      take 2 (hash (chain s1 ! 1)) = ''00'')"
proof -
  have appended: "take 2 (hash (last (chain self'))) = ''00''"
    if "add r u now self = Some (Inr self')"
  proof -
    from that obtain b' where
      m: "mine 2 (Block_init (index (last (chain self)) + 1) now (r @ '':'' @ u) (hash (last (chain self)))) = Some b'"
      and c: "chain self' = chain self @ [b']"
      by (rule add_Inr)
    from mine_sealed[OF m] have "sealed 2 b'" .
    with c show ?thesis by (simp add: sealed_2)
  qed
  have every: "take 2 (hash (chain ledger ! i)) = ''00''"
    if a: "reachable ledger \<and> 0 < i \<and> i < length (chain ledger)"
  proof -
    from a have "list_all (sealed 2) (tl (chain ledger))"
      using reachable_inv by (simp add: ledger_inv_def)
    moreover from a have "chain ledger ! i \<in> set (tl (chain ledger))"
      by (cases "chain ledger"; cases i) auto
    ultimately have "sealed 2 (chain ledger ! i)" by (simp add: list_all_iff)
    then show ?thesis by (simp add: sealed_2)
  qed
  have scenario: "length (chain s1) = 2 \<and> index (chain s1 ! 1) = 1 \<and>
      prev_hash (chain s1 ! 1) = hash (chain s1 ! 0) \<and> data (chain s1 ! 1) = ''editor:bob'' \<and>
      take 2 (hash (chain s1 ! 1)) = ''00''"
    if a: "init now0 Absent = Inr s0 \<and> add ''editor'' ''bob'' now1 s0 = Some (Inr s1)"
  proof -
    from a obtain b' where "chain s1 = [Block_init 0 now0 ''Genesis'' ''0'', b']"
      "index b' = 1" "prev_hash b' = hash (Block_init 0 now0 ''Genesis'' ''0'')"
      "data b' = ''editor'' @ '':'' @ ''bob''" "sealed 2 b'"
      by (blast elim: fresh_then_add)
    then show ?thesis by (simp add: sealed_2)
  qed
  from appended every scenario show ?thesis by blast
qed

theorem proof_of_work_witness:
  "add ''editor'' ''bob'' clock1 genesis_state = Some (Inr bob_state) \<and>
   take 2 (hash (last (chain bob_state))) = ''00'' \<and>
   reachable bob_state \<and> (0::nat) < 1 \<and> 1 < length (chain bob_state) \<and>
   take 2 (hash (chain bob_state ! 1)) = ''00'' \<and>
   init clock0 Absent = Inr genesis_state \<and>
   length (chain bob_state) = 2 \<and> index (chain bob_state ! 1) = 1 \<and>
   prev_hash (chain bob_state ! 1) = hash (chain bob_state ! 0) \<and>
   data (chain bob_state ! 1) = ''editor:bob'' \<and>
   hash (chain bob_state ! 1) = ''0048208de8bdbed20b00c41f348817b35c8d027495b2d7c1a6db75cf50e0c2e9''"
proof -
  have l: "(0::nat) < 1 \<and> 1 < length (chain bob_state)" by (simp add: bob_state_def)
  have h: "hash (chain bob_state ! 1) = ''0048208de8bdbed20b00c41f348817b35c8d027495b2d7c1a6db75cf50e0c2e9''"
    by (simp add: bob_state_def bob_block_def)
  from proof_of_work[where r = "''editor''" and u = "''bob''" and now = clock1 and self = genesis_state
      and self' = bob_state and ledger = bob_state and i = 1 and ?now0.0 = clock0 and ?s0.0 = genesis_state
      and ?now1.0 = clock1 and ?s1.0 = bob_state]
    bob_run genesis_run reachable_bob_state l h
  show ?thesis by simp
qed

text \<open>
  \<^bold>\<open>C6\<close> (append). On a ledger with a non-empty chain, a call of \<^verbatim>\<open>add\<close> that returns
  has made the chain longer by exactly one block, kept the blocks before it, and given the
  new last block the payload \<^verbatim>\<open>role:user\<close>. The call does return when the ledger
  directory exists and some number of rounds of the mining loop reaches a hash that starts
  with \<^verbatim>\<open>00\<close>; and it never raises \<^verbatim>\<open>IndexError\<close> on a non-empty chain.
\<close>

theorem append_monotonic:
  "(chain self \<noteq> [] \<and> add r u now self = Some (Inr self') \<longrightarrow>
      length (chain self') = length (chain self) + 1 \<and> data (last (chain self')) = r @ '':'' @ u \<and>
      butlast (chain self') = chain self) \<and>
   (chain self \<noteq> [] \<and> disk self \<noteq> Absent \<and>
    sealed 2 ((mine_step ^^ n)
      (Block_init (index (last (chain self)) + 1) now (r @ '':'' @ u) (hash (last (chain self)))))
      \<longrightarrow> (\<exists>next. add r u now self = Some (Inr next))) \<and>
   (chain self \<noteq> [] \<longrightarrow> add r u now self \<noteq> Some (Inl IndexError))"
proof -
  have grows: "length (chain self') = length (chain self) + 1 \<and>
      data (last (chain self')) = r @ '':'' @ u \<and> butlast (chain self') = chain self"
    if "chain self \<noteq> [] \<and> add r u now self = Some (Inr self')"
  proof -
    from that obtain b' where
      m: "mine 2 (Block_init (index (last (chain self)) + 1) now (r @ '':'' @ u) (hash (last (chain self)))) = Some b'"
      and c: "chain self' = chain self @ [b']"
      by (blast elim: add_Inr)
    from mine_fields[OF m] have "data b' = r @ '':'' @ u" by simp
    with c show ?thesis by simp
  qed
  have returns: "\<exists>next. add r u now self = Some (Inr next)"
    if a: "chain self \<noteq> [] \<and> disk self \<noteq> Absent \<and>
      sealed 2 ((mine_step ^^ n)
        (Block_init (index (last (chain self)) + 1) now (r @ '':'' @ u) (hash (last (chain self)))))"
  proof -
    from a obtain m where
      "mine 2 (Block_init (index (last (chain self)) + 1) now (r @ '':'' @ u) (hash (last (chain self))))
         = Some ((mine_step ^^ m)
             (Block_init (index (last (chain self)) + 1) now (r @ '':'' @ u) (hash (last (chain self)))))"
      using mine_returns by blast
    with a show ?thesis using add_returns by blast
  qed
  have no_index_error: "add r u now self \<noteq> Some (Inl IndexError)" if "chain self \<noteq> []"
    using that by (auto simp: add_def Let_def save_def split: option.splits storage.splits)
  from grows returns no_index_error show ?thesis by blast
qed

theorem append_monotonic_witness:
  "chain genesis_state \<noteq> [] \<and> disk genesis_state \<noteq> Absent \<and>
   sealed 2 ((mine_step ^^ 1)
      (Block_init (index (last (chain genesis_state)) + 1) clock1 (''editor'' @ '':'' @ ''bob'')
         (hash (last (chain genesis_state))))) \<and>
   add ''editor'' ''bob'' clock1 genesis_state = Some (Inr bob_state) \<and>
   length (chain bob_state) = length (chain genesis_state) + 1 \<and>
   data (last (chain bob_state)) = ''editor'' @ '':'' @ ''bob'' \<and>
   butlast (chain bob_state) = chain genesis_state \<and>
   add ''editor'' ''bob'' clock1 genesis_state \<noteq> Some (Inl IndexError)"
proof -
  have c: "chain genesis_state \<noteq> []" "disk genesis_state \<noteq> Absent"
    by (simp_all add: genesis_state_def persisted_def)
  have "index genesis_block + 1 = 1" by (simp add: genesis_block_def)
  then have s: "sealed 2 ((mine_step ^^ 1)
      (Block_init (index (last (chain genesis_state)) + 1) clock1 (''editor'' @ '':'' @ ''bob'')
         (hash (last (chain genesis_state)))))"
    using bob_block_unsealed bob_block_step
    by (simp add: genesis_state_def sealed_2 bob_block_def)
  from append_monotonic[of genesis_state "''editor''" "''bob''" clock1 bob_state 1] c s bob_run
  show ?thesis by simp
qed

text \<open>
  \<^bold>\<open>C7\<close> (genesis). A ledger constructed where the ledger directory does not exist has
  exactly one block, with index 0, \<^verbatim>\<open>prev_hash\<close> \<^verbatim>\<open>0\<close> and payload \<^verbatim>\<open>Genesis\<close>. The
  block is written to the file as constructed, with no round of mining: the file holds one
  record with the six attributes, the nonce 0 and the digest of the canonical string at
  nonce 0, and a ledger constructed later against this file has the same single block.
\<close>

theorem genesis_invariant:
  "\<exists>g. init now Absent =
          Inr \<lparr>chain = [g],
               disk = Dir (Some (Json (JList [JObj
                 [(''index'', JInt 0), (''timestamp'', JStr now), (''data'', JStr ''Genesis''),
                  (''prev_hash'', JStr ''0''), (''nonce'', JInt 0), (''hash'', JStr (hash g))]]))),
               stdout = []\<rparr> \<and>
        index g = 0 \<and> prev_hash g = ''0'' \<and> data g = ''Genesis'' \<and> timestamp g = now \<and>
        nonce g = 0 \<and> hash g = compute_hash g \<and>
        hash g = sha256_hexdigest (''0'' @ now @ ''Genesis'' @ ''0'' @ ''0'') \<and>
        (\<forall>later. init later (Dir (Some (Json (JList [JObj
                 [(''index'', JInt 0), (''timestamp'', JStr now), (''data'', JStr ''Genesis''),
                  (''prev_hash'', JStr ''0''), (''nonce'', JInt 0), (''hash'', JStr (hash g))]]))))
           = Inr \<lparr>chain = [g],
                  disk = Dir (Some (Json (JList [JObj
                    [(''index'', JInt 0), (''timestamp'', JStr now), (''data'', JStr ''Genesis''),
                     (''prev_hash'', JStr ''0''), (''nonce'', JInt 0), (''hash'', JStr (hash g))]]))),
                  stdout = []\<rparr>)"
proof -
  let ?g = "Block_init 0 now ''Genesis'' ''0''"
  have written: "persisted [?g] = Dir (Some (Json (JList [JObj
                 [(''index'', JInt 0), (''timestamp'', JStr now), (''data'', JStr ''Genesis''),
                  (''prev_hash'', JStr ''0''), (''nonce'', JInt 0), (''hash'', JStr (hash ?g))]])))"
    by (simp add: persisted_def vars_block_def)
  have made: "init now Absent = Inr \<lparr>chain = [?g], disk = persisted [?g], stdout = []\<rparr>"
    using init_fresh[of Absent now] by simp
  have reload: "init later (persisted [?g]) = Inr \<lparr>chain = [?g], disk = persisted [?g], stdout = []\<rparr>"
    for later by (rule init_persisted)
  have digest: "hash ?g = sha256_hexdigest (''0'' @ now @ ''Genesis'' @ ''0'' @ ''0'')"
    by (simp add: Block_init_genesis)
  from made reload digest Block_init_consistent[of 0 now "''Genesis''" "''0''"]
  show ?thesis
    unfolding written by (intro exI[of _ ?g]) simp
qed

theorem genesis_invariant_witness:
  "init clock0 Absent =
     Inr \<lparr>chain = [genesis_block],
          disk = Dir (Some (Json (JList [JObj
            [(''index'', JInt 0), (''timestamp'', JStr ''2025-03-14 09:26:53.589793''),
             (''data'', JStr ''Genesis''), (''prev_hash'', JStr ''0''), (''nonce'', JInt 0),
             (''hash'', JStr ''727dd40b09bf62eb4d1d545d238f9355e433b76884d4d677be8cbf25dcc45218'')]]))),
          stdout = []\<rparr> \<and>
   index genesis_block = 0 \<and> prev_hash genesis_block = ''0'' \<and> data genesis_block = ''Genesis'' \<and>
   timestamp genesis_block = clock0 \<and> nonce genesis_block = 0 \<and>
   hash genesis_block = compute_hash genesis_block \<and>
   hash genesis_block = ''727dd40b09bf62eb4d1d545d238f9355e433b76884d4d677be8cbf25dcc45218'' \<and>
   take 2 (hash genesis_block) = ''72'' \<and>
   init clock1 (Dir (Some (Json (JList [JObj
            [(''index'', JInt 0), (''timestamp'', JStr ''2025-03-14 09:26:53.589793''),
             (''data'', JStr ''Genesis''), (''prev_hash'', JStr ''0''), (''nonce'', JInt 0),
             (''hash'', JStr ''727dd40b09bf62eb4d1d545d238f9355e433b76884d4d677be8cbf25dcc45218'')]]))))
     = Inr \<lparr>chain = [genesis_block],
            disk = Dir (Some (Json (JList [JObj
              [(''index'', JInt 0), (''timestamp'', JStr ''2025-03-14 09:26:53.589793''),
               (''data'', JStr ''Genesis''), (''prev_hash'', JStr ''0''), (''nonce'', JInt 0),
               (''hash'', JStr ''727dd40b09bf62eb4d1d545d238f9355e433b76884d4d677be8cbf25dcc45218'')]]))),
            stdout = []\<rparr>"
proof -
  from genesis_invariant[of clock0] obtain g where
    g: "init clock0 Absent =
          Inr \<lparr>chain = [g],
               disk = Dir (Some (Json (JList [JObj
                 [(''index'', JInt 0), (''timestamp'', JStr clock0), (''data'', JStr ''Genesis''),
                  (''prev_hash'', JStr ''0''), (''nonce'', JInt 0), (''hash'', JStr (hash g))]]))),
               stdout = []\<rparr>"
    and f: "index g = 0" "prev_hash g = ''0''" "data g = ''Genesis''" "timestamp g = clock0"
      "nonce g = 0" "hash g = compute_hash g"
    and reload: "\<And>later. init later (Dir (Some (Json (JList [JObj
                 [(''index'', JInt 0), (''timestamp'', JStr clock0), (''data'', JStr ''Genesis''),
                  (''prev_hash'', JStr ''0''), (''nonce'', JInt 0), (''hash'', JStr (hash g))]]))))
           = Inr \<lparr>chain = [g],
                  disk = Dir (Some (Json (JList [JObj
                    [(''index'', JInt 0), (''timestamp'', JStr clock0), (''data'', JStr ''Genesis''),
                     (''prev_hash'', JStr ''0''), (''nonce'', JInt 0), (''hash'', JStr (hash g))]]))),
                  stdout = []\<rparr>"
    by blast
  from g have eq: "g = genesis_block" by (simp add: genesis_run genesis_state_def)
  have h: "hash genesis_block = ''727dd40b09bf62eb4d1d545d238f9355e433b76884d4d677be8cbf25dcc45218''"
    by (simp add: genesis_block_def)
  have c: "clock0 = ''2025-03-14 09:26:53.589793''" by (simp add: clock0_def)
  have made: "init clock0 Absent =
     Inr \<lparr>chain = [genesis_block],
          disk = Dir (Some (Json (JList [JObj
            [(''index'', JInt 0), (''timestamp'', JStr ''2025-03-14 09:26:53.589793''),
             (''data'', JStr ''Genesis''), (''prev_hash'', JStr ''0''), (''nonce'', JInt 0),
             (''hash'', JStr ''727dd40b09bf62eb4d1d545d238f9355e433b76884d4d677be8cbf25dcc45218'')]]))),
          stdout = []\<rparr>"
    using g unfolding eq by (simp only: h c)
  have again: "init clock1 (Dir (Some (Json (JList [JObj
            [(''index'', JInt 0), (''timestamp'', JStr ''2025-03-14 09:26:53.589793''),
             (''data'', JStr ''Genesis''), (''prev_hash'', JStr ''0''), (''nonce'', JInt 0),
             (''hash'', JStr ''727dd40b09bf62eb4d1d545d238f9355e433b76884d4d677be8cbf25dcc45218'')]]))))
     = Inr \<lparr>chain = [genesis_block],
            disk = Dir (Some (Json (JList [JObj
              [(''index'', JInt 0), (''timestamp'', JStr ''2025-03-14 09:26:53.589793''),
               (''data'', JStr ''Genesis''), (''prev_hash'', JStr ''0''), (''nonce'', JInt 0),
               (''hash'', JStr ''727dd40b09bf62eb4d1d545d238f9355e433b76884d4d677be8cbf25dcc45218'')]]))),
            stdout = []\<rparr>"
    using reload[of clock1] unfolding eq by (simp only: h c)
  have t: "take 2 (hash genesis_block) = ''72''" by (simp add: genesis_block_def)
  from f have f': "index genesis_block = 0" "prev_hash genesis_block = ''0''"
    "data genesis_block = ''Genesis''" "timestamp genesis_block = clock0"
    "nonce genesis_block = 0" "hash genesis_block = compute_hash genesis_block"
    unfolding eq by blast+
  from made f' h t again show ?thesis by (intro conjI)
qed

text \<open>
  \<^bold>\<open>C8\<close> (hash determinism). \<^verbatim>\<open>compute_hash\<close> is the digest of the five attributes
  \<^verbatim>\<open>index\<close>, \<^verbatim>\<open>timestamp\<close>, \<^verbatim>\<open>data\<close>, \<^verbatim>\<open>prev_hash\<close>, \<^verbatim>\<open>nonce\<close> in this order, and
  does not read the \<^verbatim>\<open>hash\<close> attribute. The hash of a block just constructed, of a block
  that \<^verbatim>\<open>mine\<close> returns for a constructed block, and of every block of a reachable ledger
  is \<^verbatim>\<open>compute_hash\<close> of the block as it stands.
\<close>

theorem hash_determinism:
  "compute_hash b =
     sha256_hexdigest (str_int (index b) @ timestamp b @ data b @ prev_hash b @ str_int (nonce b)) \<and>
   compute_hash (b\<lparr>hash := h\<rparr>) = compute_hash b \<and>
   hash (Block_init idx ts d ph) = compute_hash (Block_init idx ts d ph) \<and>
   (mine difficulty (Block_init idx ts d ph) = Some sealed_block \<longrightarrow>
      hash sealed_block = compute_hash sealed_block) \<and>
   (reachable ledger \<and> c \<in> set (chain ledger) \<longrightarrow> hash c = compute_hash c)"
proof -
  have fields: "compute_hash b =
     sha256_hexdigest (str_int (index b) @ timestamp b @ data b @ prev_hash b @ str_int (nonce b))"
    by (simp add: compute_hash_def block_str_def)
  have ignores: "compute_hash (b\<lparr>hash := h\<rparr>) = compute_hash b"
    by (simp add: compute_hash_def block_str_def)
  have mined: "hash sealed_block = compute_hash sealed_block"
    if "mine difficulty (Block_init idx ts d ph) = Some sealed_block"
    using mine_consistent[OF that Block_init_consistent] .
  have stored: "hash c = compute_hash c" if "reachable ledger \<and> c \<in> set (chain ledger)"
  proof -
    from that have "list_all (\<lambda>b. hash b = compute_hash b) (chain ledger)"
      using reachable_inv by (simp add: ledger_inv_def)
    with that show ?thesis by (simp add: list_all_iff)
  qed
  from fields ignores Block_init_consistent[of idx ts d ph] mined stored show ?thesis by blast
qed

theorem hash_determinism_witness:
  "compute_hash bob_block =
     sha256_hexdigest (str_int (index bob_block) @ timestamp bob_block @ data bob_block @
        prev_hash bob_block @ str_int (nonce bob_block)) \<and>
   mine 2 (Block_init 1 clock1 ''editor:bob'' (hash genesis_block)) = Some bob_block \<and>
   nonce bob_block = 1 \<and>
   hash bob_block = compute_hash bob_block \<and>
   reachable bob_state \<and> genesis_block \<in> set (chain bob_state) \<and>
   hash genesis_block = compute_hash genesis_block"
proof -
  have n: "nonce bob_block = 1" by (simp add: bob_block_def)
  have m: "genesis_block \<in> set (chain bob_state)" by (simp add: bob_state_def)
  from hash_determinism[where b = bob_block and idx = 1 and ts = clock1 and d = "''editor:bob''"
      and ph = "hash genesis_block" and difficulty = 2 and sealed_block = bob_block
      and ledger = bob_state and c = genesis_block]
    bob_block_mined reachable_bob_state n m
  show ?thesis by simp
qed

text \<open>
  \<^bold>\<open>C9\<close> (missing arguments), as the code has it, for every form of \<^verbatim>\<open>__main__\<close> block
  and every copy \<open>K\<close> of the class. With the verb \<^verbatim>\<open>grant\<close> or \<^verbatim>\<open>verify\<close> and role or user
  missing, every block that handles the verb constructs the ledger before it tests the
  number of arguments and then calls no method of it: the common form prints
  \<^verbatim>\<open>Invalid command or missing arguments\<close>, the consolidated forms print a usage line (once
  for each ledger constructed), and the first block ends with the \<^verbatim>\<open>IndexError\<close> of
  \<^verbatim>\<open>sys.argv[2]\<close> or \<^verbatim>\<open>sys.argv[3]\<close>. With no verb, the first block ends with the
  \<^verbatim>\<open>IndexError\<close> of \<^verbatim>\<open>sys.argv[1]\<close>, the common form prints the usage line after
  constructing the ledger, and the consolidated forms run build and repair, which leaves
  the ledger storage alone. In all these runs the block depends on the class through its
  constructor only: neither \<^verbatim>\<open>add\<close> nor \<^verbatim>\<open>verify\<close> is called. The constructor of every copy
  leaves storage that holds a saved chain as it is, and writes a genesis block where the
  ledger directory does not exist; the evaluation after the witness is the invocation
  \<^verbatim>\<open>grant\<close> alone on such storage, in every form of block (the block of the second
  script prints its report and no usage line).
\<close>

theorem main_missing_arguments:
  "(role_or_user_missing argv \<longrightarrow>
      main_first K argv now0 now1 now2 d project =
        Some (constructed_then_IndexError K now0 d project) \<and>
      main_standard K argv now0 now1 d project =
        Some (constructed_only K now0 d project [invalid_line]) \<and>
      main_consolidated K argv now0 now1 d project =
        Some (constructed_only K now0 d project [usage_line]) \<and>
      main_consolidated_twice K argv now0 now1 now2 now3 d project =
        and_then (Some (constructed_only K now0 d project [usage_line]))
          (\<lambda>d' project'. Some (constructed_only K now2 d' project' [usage_line])) \<and>
      main_last K argv now0 now1 d project =
        Some (constructed_only K now0 d project
                [if argv ! 1 = ''grant'' then usage_grant_line else usage_verify_line])) \<and>
   (verb_missing argv \<longrightarrow>
      main_first K argv now0 now1 now2 d project =
        Some (constructed_then_IndexError K now0 d project) \<and>
      main_standard K argv now0 now1 d project =
        Some (constructed_only K now0 d project [usage_line]) \<and>
      main_consolidated K argv now0 now1 d project = Some (main_build d project) \<and>
      main_consolidated_twice K argv now0 now1 now2 now3 d project =
        and_then (Some (main_build d project)) (\<lambda>d' project'. Some (main_build d' project')) \<and>
      main_last K argv now0 now1 d project = Some (main_build d project)) \<and>
   (init_method K' = init_method K \<and> (role_or_user_missing argv \<or> verb_missing argv) \<longrightarrow>
      main_first K' argv now0 now1 now2 d project = main_first K argv now0 now1 now2 d project \<and>
      main_standard K' argv now0 now1 d project = main_standard K argv now0 now1 d project \<and>
      main_consolidated K' argv now0 now1 d project = main_consolidated K argv now0 now1 d project \<and>
      main_consolidated_twice K' argv now0 now1 now2 now3 d project =
        main_consolidated_twice K argv now0 now1 now2 now3 d project \<and>
      main_last K' argv now0 now1 d project = main_last K argv now0 now1 d project) \<and>
   ledger_storage (main_build d project) = d \<and>
   (K \<in> {class_first, class_earlier difficulty, class_last} \<longrightarrow>
      constructed_only K now0 (persisted bs) project out = finished (persisted bs) project out \<and>
      constructed_only K now0 Absent project out =
        finished (persisted [Block_init 0 now0 ''Genesis'' ''0'']) project out \<and>
      constructed_then_IndexError K now0 (persisted bs) project =
        aborted IndexError (persisted bs) project [] \<and>
      constructed_then_IndexError K now0 Absent project =
        aborted IndexError (persisted [Block_init 0 now0 ''Genesis'' ''0'']) project [])"
proof -
  have incomplete: "main_first K argv now0 now1 now2 d project =
        Some (constructed_then_IndexError K now0 d project) \<and>
      main_standard K argv now0 now1 d project =
        Some (constructed_only K now0 d project [invalid_line]) \<and>
      main_consolidated K argv now0 now1 d project =
        Some (constructed_only K now0 d project [usage_line]) \<and>
      main_consolidated_twice K argv now0 now1 now2 now3 d project =
        and_then (Some (constructed_only K now0 d project [usage_line]))
          (\<lambda>d' project'. Some (constructed_only K now2 d' project' [usage_line])) \<and>
      main_last K argv now0 now1 d project =
        Some (constructed_only K now0 d project
                [if argv ! 1 = ''grant'' then usage_grant_line else usage_verify_line])"
    if m: "role_or_user_missing argv"
  proof -
    have twice: "main_consolidated_twice K argv now0 now1 now2 now3 d project =
        and_then (Some (constructed_only K now0 d project [usage_line]))
          (\<lambda>d' project'. Some (constructed_only K now2 d' project' [usage_line]))"
    proof -
      have second: "main_consolidated K argv now2 now3 =
          (\<lambda>d' project'. Some (constructed_only K now2 d' project' [usage_line]))"
        by (intro ext) (rule main_consolidated_role_or_user[OF m])
      show ?thesis
        by (simp only: main_consolidated_twice_def main_consolidated_role_or_user[OF m] second)
    qed
    from main_first_role_or_user[OF m] main_standard_role_or_user[OF m]
      main_consolidated_role_or_user[OF m] twice main_last_role_or_user[OF m]
    show ?thesis by (intro conjI)
  qed
  have no_verb: "main_first K argv now0 now1 now2 d project =
        Some (constructed_then_IndexError K now0 d project) \<and>
      main_standard K argv now0 now1 d project =
        Some (constructed_only K now0 d project [usage_line]) \<and>
      main_consolidated K argv now0 now1 d project = Some (main_build d project) \<and>
      main_consolidated_twice K argv now0 now1 now2 now3 d project =
        and_then (Some (main_build d project)) (\<lambda>d' project'. Some (main_build d' project')) \<and>
      main_last K argv now0 now1 d project = Some (main_build d project)"
    if m: "verb_missing argv"
  proof -
    have twice: "main_consolidated_twice K argv now0 now1 now2 now3 d project =
        and_then (Some (main_build d project)) (\<lambda>d' project'. Some (main_build d' project'))"
    proof -
      have second: "main_consolidated K argv now2 now3 =
          (\<lambda>d' project'. Some (main_build d' project'))"
        by (intro ext) (rule main_consolidated_no_verb[OF m])
      show ?thesis
        by (simp only: main_consolidated_twice_def main_consolidated_no_verb[OF m] second)
    qed
    from main_first_no_verb[OF m] main_standard_no_verb[OF m]
      main_consolidated_no_verb[OF m] twice main_last_no_verb[OF m]
    show ?thesis by (intro conjI)
  qed
  have copies: "constructed_only K now0 (persisted bs) project out = finished (persisted bs) project out \<and>
      constructed_only K now0 Absent project out =
        finished (persisted [Block_init 0 now0 ''Genesis'' ''0'']) project out \<and>
      constructed_then_IndexError K now0 (persisted bs) project =
        aborted IndexError (persisted bs) project [] \<and>
      constructed_then_IndexError K now0 Absent project =
        aborted IndexError (persisted [Block_init 0 now0 ''Genesis'' ''0'']) project []"
    if k: "K \<in> {class_first, class_earlier difficulty, class_last}"
    using constructed_only_copies[OF k] by (intro conjI)
  have constructor_only: "main_first K' argv now0 now1 now2 d project = main_first K argv now0 now1 now2 d project \<and>
      main_standard K' argv now0 now1 d project = main_standard K argv now0 now1 d project \<and>
      main_consolidated K' argv now0 now1 d project = main_consolidated K argv now0 now1 d project \<and>
      main_consolidated_twice K' argv now0 now1 now2 now3 d project =
        main_consolidated_twice K argv now0 now1 now2 now3 d project \<and>
      main_last K' argv now0 now1 d project = main_last K argv now0 now1 d project"
    if a: "init_method K' = init_method K \<and> (role_or_user_missing argv \<or> verb_missing argv)"
  proof -
    from a have same: "constructed_only K' = constructed_only K"
      "constructed_then_IndexError K' = constructed_then_IndexError K"
      by (auto simp: constructed_only_def constructed_then_IndexError_def fun_eq_iff)
    from a consider "role_or_user_missing argv" | "verb_missing argv" by blast
    then show ?thesis
    proof cases
      case 1
      have twice: "main_consolidated_twice L argv now0 now1 now2 now3 d project =
          and_then (Some (constructed_only L now0 d project [usage_line]))
            (\<lambda>d' project'. Some (constructed_only L now2 d' project' [usage_line]))" for L
      proof -
        have second: "main_consolidated L argv now2 now3 =
            (\<lambda>d' project'. Some (constructed_only L now2 d' project' [usage_line]))"
          by (intro ext) (rule main_consolidated_role_or_user[OF 1])
        show ?thesis
          by (simp only: main_consolidated_twice_def main_consolidated_role_or_user[OF 1] second)
      qed
      show ?thesis
        by (simp only: main_first_role_or_user[OF 1] main_standard_role_or_user[OF 1]
            main_consolidated_role_or_user[OF 1] main_last_role_or_user[OF 1] twice same simp_thms)
    next
      case 2
      have twice: "main_consolidated_twice L argv now0 now1 now2 now3 d project =
          and_then (Some (main_build d project)) (\<lambda>d' project'. Some (main_build d' project'))" for L
      proof -
        have second: "main_consolidated L argv now2 now3 =
            (\<lambda>d' project'. Some (main_build d' project'))"
          by (intro ext) (rule main_consolidated_no_verb[OF 2])
        show ?thesis
          by (simp only: main_consolidated_twice_def main_consolidated_no_verb[OF 2] second)
      qed
      show ?thesis
        by (simp only: main_first_no_verb[OF 2] main_standard_no_verb[OF 2]
            main_consolidated_no_verb[OF 2] main_last_no_verb[OF 2] twice same simp_thms)
    qed
  qed
  from incomplete no_verb constructor_only main_build_storage(1) copies show ?thesis by blast
qed

theorem main_missing_arguments_witness:
  "role_or_user_missing [''Heady_Chain.py'', ''grant''] \<and>
   verb_missing [''Heady_Chain.py''] \<and>
   class_last \<in> {class_first, class_earlier 4, class_last} \<and>
   class_first \<in> {class_first, class_earlier 4, class_last} \<and>
   main_first class_first [''Heady_Chain.py'', ''grant''] clock1 clock2 clock2
       (persisted [genesis_block, bob_block]) [] =
     Some (aborted IndexError (persisted [genesis_block, bob_block]) [] []) \<and>
   main_standard class_last [''Heady_Chain.py'', ''grant''] clock1 clock2
       (persisted [genesis_block, bob_block]) [] =
     Some (finished (persisted [genesis_block, bob_block]) [] [invalid_line]) \<and>
   main_consolidated class_last [''Heady_Chain.py'', ''grant''] clock1 clock2
       (persisted [genesis_block, bob_block]) [] =
     Some (finished (persisted [genesis_block, bob_block]) [] [usage_line]) \<and>
   main_last class_last [''Heady_Chain.py'', ''grant''] clock1 clock2
       (persisted [genesis_block, bob_block]) [] =
     Some (finished (persisted [genesis_block, bob_block]) [] [usage_grant_line]) \<and>
   main_standard class_last [''Heady_Chain.py'', ''grant''] clock0 clock1 Absent [] =
     Some (finished (persisted [genesis_block]) [] [invalid_line]) \<and>
   main_standard class_last [''Heady_Chain.py''] clock1 clock2
       (persisted [genesis_block, bob_block]) [] =
     Some (finished (persisted [genesis_block, bob_block]) [] [usage_line]) \<and>
   main_last class_last [''Heady_Chain.py''] clock1 clock2
       (persisted [genesis_block, bob_block]) [] =
     Some (main_build (persisted [genesis_block, bob_block]) []) \<and>
   ledger_storage (main_build (persisted [genesis_block, bob_block]) []) =
     persisted [genesis_block, bob_block] \<and>
   init_method (class_last\<lparr>add_method := \<lambda>r u now hc. None, verify_method := \<lambda>r u hc. True\<rparr>)
     = init_method class_last \<and>
   main_standard (class_last\<lparr>add_method := \<lambda>r u now hc. None, verify_method := \<lambda>r u hc. True\<rparr>)
       [''Heady_Chain.py'', ''grant''] clock1 clock2 (persisted [genesis_block, bob_block]) [] =
     Some (finished (persisted [genesis_block, bob_block]) [] [invalid_line])"
proof -
  let ?grant = "[''Heady_Chain.py'', ''grant'']"
  let ?none = "[''Heady_Chain.py'']"
  let ?saved = "persisted [genesis_block, bob_block]"
  note m = grant_alone
  have k: "class_last \<in> {class_first, class_earlier 4, class_last}"
    "class_first \<in> {class_first, class_earlier 4, class_last}" by simp_all
  note saved_last = main_missing_arguments[where K = class_last and argv = ?grant
      and ?now0.0 = clock1 and ?now1.0 = clock2 and d = ?saved and project = "[]"
      and difficulty = 4 and bs = "[genesis_block, bob_block]"]
  note saved_first = main_missing_arguments[where K = class_first and argv = ?grant
      and ?now0.0 = clock1 and ?now1.0 = clock2 and ?now2.0 = clock2 and d = ?saved and project = "[]"
      and difficulty = 4 and bs = "[genesis_block, bob_block]"]
  note absent_last = main_missing_arguments[where K = class_last and argv = ?grant
      and ?now0.0 = clock0 and ?now1.0 = clock1 and d = Absent and project = "[]"
      and difficulty = 4 and out = "[invalid_line]"]
  note none_last = main_missing_arguments[where K = class_last and argv = ?none
      and ?now0.0 = clock1 and ?now1.0 = clock2 and d = ?saved and project = "[]"
      and difficulty = 4 and bs = "[genesis_block, bob_block]" and out = "[usage_line]"]
  have first: "main_first class_first ?grant clock1 clock2 clock2 ?saved [] =
      Some (aborted IndexError ?saved [] [])"
  proof -
    from saved_first m(1) have "main_first class_first ?grant clock1 clock2 clock2 ?saved [] =
        Some (constructed_then_IndexError class_first clock1 ?saved [])" by blast
    moreover from saved_first k(2) have "constructed_then_IndexError class_first clock1 ?saved [] =
        aborted IndexError ?saved [] []" by blast
    ultimately show ?thesis by (simp only:)
  qed
  have standard: "main_standard class_last ?grant clock1 clock2 ?saved [] =
      Some (finished ?saved [] [invalid_line])"
  proof -
    from saved_last m(1) have "main_standard class_last ?grant clock1 clock2 ?saved [] =
        Some (constructed_only class_last clock1 ?saved [] [invalid_line])" by blast
    moreover from saved_last[where out = "[invalid_line]"] k(1)
    have "constructed_only class_last clock1 ?saved [] [invalid_line] =
        finished ?saved [] [invalid_line]" by blast
    ultimately show ?thesis by (simp only:)
  qed
  have consolidated: "main_consolidated class_last ?grant clock1 clock2 ?saved [] =
      Some (finished ?saved [] [usage_line])"
  proof -
    from saved_last m(1) have "main_consolidated class_last ?grant clock1 clock2 ?saved [] =
        Some (constructed_only class_last clock1 ?saved [] [usage_line])" by blast
    moreover from saved_last[where out = "[usage_line]"] k(1)
    have "constructed_only class_last clock1 ?saved [] [usage_line] =
        finished ?saved [] [usage_line]" by blast
    ultimately show ?thesis by (simp only:)
  qed
  have last: "main_last class_last ?grant clock1 clock2 ?saved [] =
      Some (finished ?saved [] [usage_grant_line])"
  proof -
    from saved_last m(1) have "main_last class_last ?grant clock1 clock2 ?saved [] =
        Some (constructed_only class_last clock1 ?saved []
               [if ?grant ! 1 = ''grant'' then usage_grant_line else usage_verify_line])" by blast
    then have "main_last class_last ?grant clock1 clock2 ?saved [] =
        Some (constructed_only class_last clock1 ?saved [] [usage_grant_line])" by simp
    moreover from saved_last[where out = "[usage_grant_line]"] k(1)
    have "constructed_only class_last clock1 ?saved [] [usage_grant_line] =
        finished ?saved [] [usage_grant_line]" by blast
    ultimately show ?thesis by (simp only:)
  qed
  have fresh: "main_standard class_last ?grant clock0 clock1 Absent [] =
      Some (finished (persisted [genesis_block]) [] [invalid_line])"
  proof -
    from absent_last m(1) have "main_standard class_last ?grant clock0 clock1 Absent [] =
        Some (constructed_only class_last clock0 Absent [] [invalid_line])" by blast
    moreover from absent_last k(1)
    have "constructed_only class_last clock0 Absent [] [invalid_line] =
        finished (persisted [Block_init 0 clock0 ''Genesis'' ''0'']) [] [invalid_line]" by blast
    ultimately show ?thesis by (simp only: genesis_block_eq)
  qed
  have none_standard: "main_standard class_last ?none clock1 clock2 ?saved [] =
      Some (finished ?saved [] [usage_line])"
  proof -
    from none_last m(2) have "main_standard class_last ?none clock1 clock2 ?saved [] =
        Some (constructed_only class_last clock1 ?saved [] [usage_line])" by blast
    moreover from none_last k(1)
    have "constructed_only class_last clock1 ?saved [] [usage_line] =
        finished ?saved [] [usage_line]" by blast
    ultimately show ?thesis by (simp only:)
  qed
  from none_last m(2) have none_final: "main_last class_last ?none clock1 clock2 ?saved [] =
      Some (main_build ?saved [])" by blast
  from none_last have untouched: "ledger_storage (main_build ?saved []) = ?saved" by blast
  let ?other = "class_last\<lparr>add_method := \<lambda>r u now hc. None, verify_method := \<lambda>r u hc. True\<rparr>"
  have same: "init_method ?other = init_method class_last" by simp
  from saved_last[where K' = ?other] same m(1)
  have "main_standard ?other ?grant clock1 clock2 ?saved [] =
      main_standard class_last ?grant clock1 clock2 ?saved []" by blast
  with standard have other: "main_standard ?other ?grant clock1 clock2 ?saved [] =
      Some (finished ?saved [] [invalid_line])" by (simp only:)
  from m k first standard consolidated last fresh none_standard none_final untouched same other
  show ?thesis by (intro conjI)
qed

theorem main_grant_alone_counterexample:
  "main_first class_first [''Heady_Chain.py'', ''grant''] clock0 clock1 clock2 Absent [] =
     Some (aborted IndexError (persisted [genesis_block]) [] []) \<and>
   main_standard class_first [''Heady_Chain.py'', ''grant''] clock0 clock1 Absent [] =
     Some (finished (persisted [genesis_block]) [] [invalid_line]) \<and>
   main_standard (class_earlier 4) [''Heady_Chain.py'', ''grant''] clock0 clock1 Absent [] =
     Some (finished (persisted [genesis_block]) [] [invalid_line]) \<and>
   main_standard class_last [''Heady_Chain.py'', ''grant''] clock0 clock1 Absent [] =
     Some (finished (persisted [genesis_block]) [] [invalid_line]) \<and>
   main_consolidated class_last [''Heady_Chain.py'', ''grant''] clock0 clock1 Absent [] =
     Some (finished (persisted [genesis_block]) [] [usage_line]) \<and>
   main_consolidated_twice class_last [''Heady_Chain.py'', ''grant''] clock0 clock1 clock1 clock2
       Absent [] =
     Some (finished (persisted [genesis_block]) [] [usage_line, usage_line]) \<and>
   main_last class_last [''Heady_Chain.py'', ''grant''] clock0 clock1 Absent [] =
     Some (finished (persisted [genesis_block]) [] [usage_grant_line]) \<and>
   persisted [genesis_block] \<noteq> Absent \<and>
   main_build Absent [] =
     finished Absent
       [''requirements.txt'', ''package.json'', ''heady-manager.js'', ''src/process_data.py'',
        ''render.yaml'']
       [replicate 50 CHR ''='', ''HeadySystems Build & Repair Cycle'', replicate 50 CHR ''='',
        CHR 0x0A # ''[STEP 1] Infrastructure Audit'',
        ''[MISSING] render.yaml'', ''[MISSING] requirements.txt'', ''[MISSING] package.json'',
        ''[MISSING] heady-manager.js'', ''[MISSING] src/process_data.py'',
        CHR 0x0A # ''[STEP 2] Dependency Resolution'',
        ''[GENERATED] requirements.txt'', ''[GENERATED] package.json'',
        CHR 0x0A # ''[STEP 3] Code Repair'',
        ''[GENERATED] heady-manager.js'', ''[GENERATED] src/process_data.py'',
        ''[GENERATED] render.yaml'',
        CHR 0x0A # ''[STEP 4] Build Simulation'',
        ''Ready for: git add . && git commit -m 'Build repair' && git push'',
        CHR 0x0A # ''[COMPLETE] Project ready for Render deployment'']"
proof -
  let ?grant = "[''Heady_Chain.py'', ''grant'']"
  note m = main_first_role_or_user[OF grant_alone(1)] main_standard_role_or_user[OF grant_alone(1)]
    main_consolidated_role_or_user[OF grant_alone(1)] main_last_role_or_user[OF grant_alone(1)]
  have made: "init clock0 Absent = Inr genesis_state" "init_first clock0 Absent = Inr genesis_state"
    "init_earlier clock0 Absent = Inr genesis_state"
    by (simp_all only: init_Absent init_first_Absent init_earlier_Absent genesis_block_eq
        genesis_state_def)
  have again: "init clock1 (persisted [genesis_block]) = Inr genesis_state"
    by (simp only: init_persisted genesis_state_def)
  have c1: "main_first class_first ?grant clock0 clock1 clock2 Absent [] =
     Some (aborted IndexError (persisted [genesis_block]) [] [])"
    by (simp add: m constructed_then_IndexError_def made genesis_state_def)
  have c2: "main_standard class_first ?grant clock0 clock1 Absent [] =
     Some (finished (persisted [genesis_block]) [] [invalid_line])"
    by (simp add: m constructed_only_def made genesis_state_def)
  have c3: "main_standard (class_earlier 4) ?grant clock0 clock1 Absent [] =
     Some (finished (persisted [genesis_block]) [] [invalid_line])"
    by (simp add: m constructed_only_def made genesis_state_def)
  have c4: "main_standard class_last ?grant clock0 clock1 Absent [] =
     Some (finished (persisted [genesis_block]) [] [invalid_line])"
    by (simp add: m constructed_only_def made genesis_state_def)
  have c5: "main_consolidated class_last ?grant clock0 clock1 Absent [] =
     Some (finished (persisted [genesis_block]) [] [usage_line])"
    by (simp add: m constructed_only_def made genesis_state_def)
  have c6: "main_consolidated_twice class_last ?grant clock0 clock1 clock1 clock2 Absent [] =
     Some (finished (persisted [genesis_block]) [] [usage_line, usage_line])"
    unfolding main_consolidated_twice_def c5 and_then_finished
    by (simp add: m constructed_only_def again genesis_state_def finished_def)
  have c7: "main_last class_last ?grant clock0 clock1 Absent [] =
     Some (finished (persisted [genesis_block]) [] [usage_grant_line])"
    by (simp add: m constructed_only_def made genesis_state_def)
  have c8: "persisted [genesis_block] \<noteq> Absent" by (simp add: persisted_def)
  from c1 c2 c3 c4 c5 c6 c7 c8 build_report_empty_project[of Absent]
  show ?thesis by (intro conjI)
qed

text \<open>
  \<^bold>\<open>C10\<close> (the empty list). A ledger file that holds the empty JSON list is loaded
  without the fallback to genesis: the chain is empty and the file stays as it is. \<^verbatim>\<open>add\<close>
  on this ledger raises \<^verbatim>\<open>IndexError\<close> and appends nothing.
\<close>

theorem empty_list_ledger:
  "init now (Dir (Some (Json (JList [])))) =
     Inr \<lparr>chain = [], disk = Dir (Some (Json (JList []))), stdout = []\<rparr> \<and>
   add r u now' \<lparr>chain = [], disk = Dir (Some (Json (JList []))), stdout = []\<rparr> = Some (Inl IndexError)"
  by (simp add: init_def load_def raising_def add_def)

theorem empty_list_ledger_witness:
  "init clock0 (Dir (Some (Json (JList [])))) =
     Inr \<lparr>chain = [], disk = Dir (Some (Json (JList []))), stdout = []\<rparr> \<and>
   length (chain \<lparr>chain = [], disk = Dir (Some (Json (JList []))), stdout = []\<rparr>) = 0 \<and>
   add ''editor'' ''bob'' clock1 \<lparr>chain = [], disk = Dir (Some (Json (JList []))), stdout = []\<rparr>
     = Some (Inl IndexError)"
  using empty_list_ledger[of clock0 "''editor''" "''bob''" clock1] by simp

end
